theory Spec2Isabelle
  imports Complex_Main "HOL-Library.Char_ord" "HOL-Library.List_Lexorder" "HOL-Library.Word"
begin

section \<open>The loaded tables\<close>

text \<open>
  \<^verbatim>\<open>Order.__init__\<close> stores the dictionary returned by \<^verbatim>\<open>Olist().get_data()\<close> in
  \<^verbatim>\<open>self.data\<close>; the methods of \<^verbatim>\<open>Order\<close> read six of its tables. A table is the list
  of its rows, in row order, and a row is a record of the columns the code reads.

  Conventions of the embedding:
  \<^item> a cell that pandas reads as missing (NaN, NaT) is \<open>None\<close>. The columns modelled as
    nullable are the five timestamps of \<^verbatim>\<open>orders\<close> and \<^verbatim>\<open>review_score\<close>; the identifier,
    status, item, price and coordinate columns of the input tables hold a value in every row;
  \<^item> a timestamp is the integer count of nanoseconds since the epoch that
    \<^verbatim>\<open>pd.to_datetime\<close> parses a well-formed cell to, and a duration (Timedelta) is a
    signed count of nanoseconds;
  \<^item> \<^verbatim>\<open>order_item_id\<close> is a column of 64-bit signed integers (the type pandas infers for
    a column of integers), and so is its sum per group: a value is a \<open>64 word\<close>, read
    as a signed number by \<open>sint\<close>, and addition wraps around. The timestamps and scores
    are mathematical integers and the float columns are real numbers: the rounding of
    floating-point sums is outside the model.
\<close>

type_synonym timestamp = int
type_synonym timedelta = int

record orders_row =
  order_id :: string
  customer_id :: string
  order_status :: string
  order_purchase_timestamp :: "timestamp option"
  order_approved_at :: "timestamp option"
  order_delivered_carrier_date :: "timestamp option"
  order_delivered_customer_date :: "timestamp option"
  order_estimated_delivery_date :: "timestamp option"

record order_reviews_row =
  order_id :: string
  review_score :: "int option"

record order_items_row =
  order_id :: string
  order_item_id :: "64 word"
  seller_id :: string
  price :: real
  freight_value :: real

record sellers_row =
  seller_id :: string
  seller_zip_code_prefix :: int

record customers_row =
  customer_id :: string
  customer_zip_code_prefix :: int

record geolocation_row =
  geolocation_zip_code_prefix :: int
  geolocation_lat :: real
  geolocation_lng :: real

record dataset =
  orders :: "orders_row list"
  order_reviews :: "order_reviews_row list"
  order_items :: "order_items_row list"
  sellers :: "sellers_row list"
  customers :: "customers_row list"
  geolocation :: "geolocation_row list"

section \<open>The wait-time derivation\<close>

text \<open>The table returned by \<^verbatim>\<open>get_wait_time\<close>: the five selected columns.\<close>

record wait_row =
  order_id :: string
  wait_time :: "timedelta option"
  expected_wait_time :: "timedelta option"
  delay_vs_expected :: int
  order_status :: string

definition ns_per_day :: int where
  "ns_per_day = 86400 * 1000000000"

text \<open>Subtraction of two datetime columns, cell by cell: NaT when either side is NaT.\<close>

definition ts_sub :: "timestamp option \<Rightarrow> timestamp option \<Rightarrow> timedelta option" where
  "ts_sub a b = (case a of None \<Rightarrow> None
                 | Some x \<Rightarrow> (case b of None \<Rightarrow> None | Some y \<Rightarrow> Some (x - y)))"

text \<open>\<^verbatim>\<open>.dt.days\<close>: the days component of a Timedelta, rounded towards minus infinity;
  NaN for NaT.\<close>

definition dt_days :: "timedelta option \<Rightarrow> int option" where
  "dt_days td = (case td of None \<Rightarrow> None | Some t \<Rightarrow> Some (t div ns_per_day))"

text \<open>\<^verbatim>\<open>lambda x: x if x > 0 else 0\<close>; the comparison \<^verbatim>\<open>NaN > 0\<close> is false.\<close>

definition clamp_delay :: "int option \<Rightarrow> int" where
  "clamp_delay x = (case x of None \<Rightarrow> 0 | Some v \<Rightarrow> (if v > 0 then v else 0))"

definition wait_time_row :: "orders_row \<Rightarrow> wait_row" where
  "wait_time_row r =
     \<lparr> wait_row.order_id = orders_row.order_id r,
       wait_time = ts_sub (order_delivered_customer_date r) (order_purchase_timestamp r),
       expected_wait_time = ts_sub (order_estimated_delivery_date r) (order_purchase_timestamp r),
       delay_vs_expected =
         clamp_delay (dt_days (ts_sub (order_delivered_customer_date r)
                                      (order_estimated_delivery_date r))),
       order_status = orders_row.order_status r \<rparr>"

text \<open>The parameter \<^verbatim>\<open>is_delivered\<close> is accepted and never read: the filter on the
  status is applied on every call.\<close>

definition get_wait_time :: "dataset \<Rightarrow> bool \<Rightarrow> wait_row list" where
  "get_wait_time d is_delivered =
     map wait_time_row
       (filter (\<lambda>r. orders_row.order_status r = ''delivered'') (orders d))"

section \<open>Relational operations of the dataframe library\<close>

text \<open>
  \<^verbatim>\<open>left.merge(right, on=key)\<close> (an inner join): every pair of a left row and a right row
  with equal keys, in the order of the left rows and, for one left row, of the right rows.
  A merged row is the pair of its two source rows; the key column, which pandas keeps
  once, is the key of either component.
\<close>

definition merge_inner :: "('a \<Rightarrow> 'k) \<Rightarrow> ('b \<Rightarrow> 'k) \<Rightarrow> 'a list \<Rightarrow> 'b list \<Rightarrow> ('a \<times> 'b) list" where
  "merge_inner kl kr ls rs =
     concat (map (\<lambda>l. map (Pair l) (filter (\<lambda>r. kr r = kl l) rs)) ls)"

text \<open>\<^verbatim>\<open>left.merge(right, how='left', ...)\<close>: a left row without a partner is kept once,
  with the right columns missing.\<close>

definition merge_left :: "('a \<Rightarrow> 'k) \<Rightarrow> ('b \<Rightarrow> 'k) \<Rightarrow> 'a list \<Rightarrow> 'b list \<Rightarrow> ('a \<times> 'b option) list" where
  "merge_left kl kr ls rs =
     concat (map (\<lambda>l. case filter (\<lambda>r. kr r = kl l) rs of
                          [] \<Rightarrow> [(l, None)]
                        | m # ms \<Rightarrow> map (\<lambda>r. (l, Some r)) (m # ms)) ls)"

text \<open>\<^verbatim>\<open>groupby(key)\<close>: the groups are the distinct keys in ascending order, and the rows
  of a group are the rows with that key, in table order.\<close>

definition group_keys :: "('a \<Rightarrow> 'k::linorder) \<Rightarrow> 'a list \<Rightarrow> 'k list" where
  "group_keys k rows = sort (remdups (map k rows))"

definition group_rows :: "('a \<Rightarrow> 'k) \<Rightarrow> 'a list \<Rightarrow> 'k \<Rightarrow> 'a list" where
  "group_rows k rows key = filter (\<lambda>r. k r = key) rows"

section \<open>The review-score derivation\<close>

record review_row =
  order_id :: string
  dim_is_five_star :: int
  dim_is_one_star :: int
  review_score :: "int option"

text \<open>\<^verbatim>\<open>lambda x: 1 if x == 5 else 0\<close> and \<^verbatim>\<open>lambda x: 1 if x == 1 else 0\<close>; a missing
  score equals neither.\<close>

definition is_five_star :: "int option \<Rightarrow> int" where
  "is_five_star x = (if x = Some 5 then 1 else 0)"

definition is_one_star :: "int option \<Rightarrow> int" where
  "is_one_star x = (if x = Some 1 then 1 else 0)"

definition get_review_score :: "dataset \<Rightarrow> review_row list" where
  "get_review_score d =
     map (\<lambda>r. \<lparr> review_row.order_id = order_reviews_row.order_id r,
                 dim_is_five_star = is_five_star (order_reviews_row.review_score r),
                 dim_is_one_star = is_one_star (order_reviews_row.review_score r),
                 review_row.review_score = order_reviews_row.review_score r \<rparr>)
       (order_reviews d)"

section \<open>The derivations over the order items\<close>

record products_row =
  order_id :: string
  number_of_products :: "64 word"

definition get_number_products :: "dataset \<Rightarrow> products_row list" where
  "get_number_products d =
     map (\<lambda>k. \<lparr> products_row.order_id = k,
                 number_of_products =
                   sum_list (map order_item_id
                     (group_rows order_items_row.order_id (order_items d) k)) \<rparr>)
       (group_keys order_items_row.order_id (order_items d))"

record sellers_count_row =
  order_id :: string
  number_of_sellers :: nat

text \<open>\<^verbatim>\<open>nunique\<close>: the number of distinct values of the group.\<close>

definition get_number_sellers :: "dataset \<Rightarrow> sellers_count_row list" where
  "get_number_sellers d =
     map (\<lambda>k. \<lparr> sellers_count_row.order_id = k,
                 number_of_sellers =
                   length (remdups (map order_items_row.seller_id
                     (group_rows order_items_row.order_id (order_items d) k))) \<rparr>)
       (group_keys order_items_row.order_id (order_items d))"

record price_freight_row =
  order_id :: string
  price :: real
  freight_value :: real

definition get_price_and_freight :: "dataset \<Rightarrow> price_freight_row list" where
  "get_price_and_freight d =
     map (\<lambda>k. \<lparr> price_freight_row.order_id = k,
                 price_freight_row.price =
                   sum_list (map order_items_row.price
                     (group_rows order_items_row.order_id (order_items d) k)),
                 price_freight_row.freight_value =
                   sum_list (map order_items_row.freight_value
                     (group_rows order_items_row.order_id (order_items d) k)) \<rparr>)
       (group_keys order_items_row.order_id (order_items d))"

section \<open>The distance derivation\<close>

text \<open>
  Modelled from the spec: \<^verbatim>\<open>haversine_distance\<close> is imported from \<^verbatim>\<open>olist.utils\<close>, a
  module of the repository that is not among its source files. The spec gives the
  formula: the four arguments (longitude and latitude of two points, in degrees) are
  converted to radians, \<open>a = sin\<^sup>2(\<Delta>lat/2) + cos(lat1) \<cdot> cos(lat2) \<cdot> sin\<^sup>2(\<Delta>lon/2)\<close>, and the
  distance is \<open>2 \<cdot> R \<cdot> asin(\<surd>a)\<close> with the Earth radius \<open>R = 6371\<close> km. The arithmetic
  is that of the real numbers.
\<close>

definition radians :: "real \<Rightarrow> real" where
  "radians x = x * pi / 180"

definition earth_radius_km :: real where
  "earth_radius_km = 6371"

definition haversine_distance :: "real \<Rightarrow> real \<Rightarrow> real \<Rightarrow> real \<Rightarrow> real" where
  "haversine_distance lon1 lat1 lon2 lat2 =
     (let rlon1 = radians lon1; rlat1 = radians lat1;
          rlon2 = radians lon2; rlat2 = radians lat2;
          dlon = rlon2 - rlon1; dlat = rlat2 - rlat1;
          a = (sin (dlat / 2))\<^sup>2 + cos rlat1 * cos rlat2 * (sin (dlon / 2))\<^sup>2
      in 2 * earth_radius_km * arcsin (sqrt a))"

text \<open>\<^verbatim>\<open>geolocation.groupby('geolocation_zip_code_prefix', as_index=False).first()\<close>: one
  row per prefix, in ascending order of the prefix, holding the first value of each column
  in the group (the columns hold a value in every row, so this is the group's first row).\<close>

definition geolocation_first :: "geolocation_row list \<Rightarrow> geolocation_row list" where
  "geolocation_first geo =
     List.map_filter (\<lambda>z. find (\<lambda>g. geolocation_zip_code_prefix g = z) geo)
       (group_keys geolocation_zip_code_prefix geo)"

record distance_row =
  order_id :: string
  distance_seller_customer :: real

text \<open>
  The chain of merges of \<^verbatim>\<open>get_distance_seller_customer\<close>. The column selections only
  drop columns; a merged row is kept as the tuple of its source rows, whose geolocation
  component is \<open>None\<close> where the left join found no prefix (the coordinates are then
  missing). The order items are left-joined to the orders, so an order without items has
  a missing \<^verbatim>\<open>seller_id\<close>, which matches no seller in the inner join that follows.
\<close>

definition sellers_geo :: "dataset \<Rightarrow> (sellers_row \<times> geolocation_row option) list" where
  "sellers_geo d =
     merge_left seller_zip_code_prefix geolocation_zip_code_prefix
       (sellers d) (geolocation_first (geolocation d))"

definition customers_geo :: "dataset \<Rightarrow> (customers_row \<times> geolocation_row option) list" where
  "customers_geo d =
     merge_left customer_zip_code_prefix geolocation_zip_code_prefix
       (customers d) (geolocation_first (geolocation d))"

definition orders_customers_sellers :: "dataset \<Rightarrow> (orders_row \<times> order_items_row option) list" where
  "orders_customers_sellers d =
     merge_left orders_row.order_id order_items_row.order_id (orders d) (order_items d)"

definition orders_customers_sellers_geo ::
  "dataset \<Rightarrow> (((orders_row \<times> order_items_row option) \<times> (sellers_row \<times> geolocation_row option))
               \<times> (customers_row \<times> geolocation_row option)) list" where
  "orders_customers_sellers_geo d =
     merge_inner (\<lambda>((r, i), s). orders_row.customer_id r)
                 (\<lambda>(c, g). customers_row.customer_id c)
       (merge_inner (\<lambda>(r, i). map_option order_items_row.seller_id i)
                    (\<lambda>(s, g). Some (sellers_row.seller_id s))
          (orders_customers_sellers d) (sellers_geo d))
       (customers_geo d)"

text \<open>\<^verbatim>\<open>dropna()\<close> followed by the row-wise \<^verbatim>\<open>apply\<close>: a row with a missing coordinate
  is dropped, every other row gets its distance. When no row is left, the new column is
  taken to be empty, as the table is.\<close>

definition item_distances :: "dataset \<Rightarrow> (string \<times> real) list" where
  "item_distances d =
     List.map_filter
       (\<lambda>(((r, i), (s, gs)), (c, gc)).
          case gs of None \<Rightarrow> None
          | Some a \<Rightarrow> (case gc of None \<Rightarrow> None
              | Some b \<Rightarrow> Some (orders_row.order_id r,
                  haversine_distance (geolocation_lng a) (geolocation_lat a)
                                     (geolocation_lng b) (geolocation_lat b))))
       (orders_customers_sellers_geo d)"

definition mean :: "real list \<Rightarrow> real" where
  "mean xs = sum_list xs / real (length xs)"

definition get_distance_seller_customer :: "dataset \<Rightarrow> distance_row list" where
  "get_distance_seller_customer d =
     map (\<lambda>k. \<lparr> distance_row.order_id = k,
                 distance_seller_customer = mean (map snd (group_rows fst (item_distances d) k)) \<rparr>)
       (group_keys fst (item_distances d))"

section \<open>The training set\<close>

type_synonym training_row =
  "(((wait_row \<times> review_row) \<times> products_row) \<times> sellers_count_row) \<times> price_freight_row"

text \<open>The single \<^verbatim>\<open>order_id\<close> column of a merged row is that of its leftmost component.\<close>

fun training_order_id :: "training_row \<Rightarrow> string" where
  "training_order_id ((((w, r), p), s), f) = wait_row.order_id w"

text \<open>A row has a missing value when one of its nullable columns is missing: the two
  durations of the wait-time table and the review score. The other columns are sums,
  counts, indicators, the clamped delay and the copied status.\<close>

fun training_row_isna :: "training_row \<Rightarrow> bool" where
  "training_row_isna ((((w, r), p), s), f) =
     (wait_time w = None \<or> expected_wait_time w = None \<or> review_row.review_score r = None)"

definition merged_features :: "dataset \<Rightarrow> bool \<Rightarrow> training_row list" where
  "merged_features d is_delivered =
     merge_inner (\<lambda>(((w, r), p), s). wait_row.order_id w) price_freight_row.order_id
       (merge_inner (\<lambda>((w, r), p). wait_row.order_id w) sellers_count_row.order_id
          (merge_inner (\<lambda>(w, r). wait_row.order_id w) products_row.order_id
             (merge_inner wait_row.order_id review_row.order_id
                (get_wait_time d is_delivered) (get_review_score d))
             (get_number_products d))
          (get_number_sellers d))
       (get_price_and_freight d)"

text \<open>The returned table has the column \<^verbatim>\<open>distance_seller_customer\<close> only when the flag
  is set.\<close>

datatype training_set =
  Training "training_row list"
| Training_with_distance "(training_row \<times> distance_row) list"

definition get_training_data :: "dataset \<Rightarrow> bool \<Rightarrow> bool \<Rightarrow> training_set" where
  "get_training_data d is_delivered with_distance_seller_customer =
     (if with_distance_seller_customer
      then Training_with_distance
             (filter (\<lambda>(t, x). \<not> training_row_isna t)
                (merge_inner training_order_id distance_row.order_id
                   (merged_features d is_delivered) (get_distance_seller_customer d)))
      else Training (filter (\<lambda>t. \<not> training_row_isna t) (merged_features d is_delivered)))"

text \<open>The rows of the returned table without the distance column.\<close>

fun training_rows :: "training_set \<Rightarrow> training_row list" where
  "training_rows (Training ts) = ts"
| "training_rows (Training_with_distance tx) = map fst tx"

section \<open>The dataset loader\<close>

text \<open>
  \<^verbatim>\<open>Olist.get_data\<close> lists a directory and parses files: both are calls into the
  operating system and the dataframe library, which either return or raise. The
  environment is a pair of functions giving the outcome of each call; the exceptions are
  those of Python (the subclasses of \<^verbatim>\<open>OSError\<close> that opening a path raises, and the
  parser's own errors). The method has no \<^verbatim>\<open>try\<close>: the first exception ends it. Its
  result is paired with the list of the calls it made, in order.
\<close>

datatype os_error = FileNotFoundError | NotADirectoryError | PermissionError | IsADirectoryError

datatype py_error = OSError os_error | EmptyDataError | ParserError | UnicodeDecodeError

datatype io_call = Listdir string | Read_csv string

record 't environment =
  listdir :: "string \<Rightarrow> py_error + string list"
  read_csv :: "string \<Rightarrow> py_error + 't"

text \<open>\<^verbatim>\<open>sub in s\<close> for strings.\<close>

fun contains_str :: "string \<Rightarrow> string \<Rightarrow> bool" where
  "contains_str sub [] = (sub = [])"
| "contains_str sub (c # cs) = (take (length sub) (c # cs) = sub \<or> contains_str sub cs)"

text \<open>\<^verbatim>\<open>s.replace(old, new)\<close> for a non-empty \<^verbatim>\<open>old\<close>: every occurrence, found from the
  left and not overlapping an earlier one, is replaced.\<close>

function replace_str :: "string \<Rightarrow> string \<Rightarrow> string \<Rightarrow> string" where
  "replace_str old new [] = []"
| "replace_str old new (c # cs) =
     (if old \<noteq> [] \<and> take (length old) (c # cs) = old
      then new @ replace_str old new (drop (length old) (c # cs))
      else c # replace_str old new cs)"
  by pat_completeness auto
termination
  by (relation "measure (\<lambda>(old, new, s). length s)") (auto simp: neq_Nil_conv)

text \<open>\<^verbatim>\<open>os.path.join(a, b)\<close> on POSIX paths.\<close>

definition path_join :: "string \<Rightarrow> string \<Rightarrow> string" where
  "path_join a b =
     (if take 1 b = ''/'' then b
      else if a = [] \<or> last a = CHR ''/'' then a @ b
      else a @ ''/'' @ b)"

definition csv_path :: "string \<Rightarrow> string" where
  "csv_path file = replace_str ''/olist/data.py'' ''/data/csv'' file"

definition key_name :: "string \<Rightarrow> string" where
  "key_name name =
     replace_str ''.csv'' [] (replace_str ''_dataset.csv'' [] (replace_str ''olist_'' [] name))"

text \<open>The loop over \<^verbatim>\<open>zip(key_names, file_names)\<close>: each file is read and stored under
  its key (a later file with the same key replaces the earlier one).\<close>

fun read_all ::
  "'t environment \<Rightarrow> string \<Rightarrow> (string \<times> string) list \<Rightarrow> (string \<rightharpoonup> 't) \<Rightarrow> io_call list
     \<Rightarrow> (py_error + (string \<rightharpoonup> 't)) \<times> io_call list" where
  "read_all env dir [] data calls = (Inr data, calls)"
| "read_all env dir ((key, file) # rest) data calls =
     (case read_csv env (path_join dir file) of
        Inl e \<Rightarrow> (Inl e, calls @ [Read_csv (path_join dir file)])
      | Inr t \<Rightarrow> read_all env dir rest (data(key \<mapsto> t)) (calls @ [Read_csv (path_join dir file)]))"

text \<open>The first argument is the environment, the second the value of \<^verbatim>\<open>__file__\<close>.\<close>

definition get_data ::
  "'t environment \<Rightarrow> string \<Rightarrow> (py_error + (string \<rightharpoonup> 't)) \<times> io_call list" where
  "get_data env file =
     (case listdir env (csv_path file) of
        Inl e \<Rightarrow> (Inl e, [Listdir (csv_path file)])
      | Inr entries \<Rightarrow>
          (let file_names = filter (contains_str ''.csv'') entries;
               key_names = map key_name file_names
           in read_all env (csv_path file) (zip key_names file_names) Map.empty
                [Listdir (csv_path file)]))"

section \<open>Example tables\<close>

text \<open>Four orders bought at time 0 with an estimate of 8 days: delivered after 10.5 days,
  delivered after 5.5 days, delivered with no delivery date recorded, and shipped only.\<close>

definition order_late :: orders_row where
  "order_late =
     \<lparr> orders_row.order_id = ''o1'', orders_row.customer_id = ''c1'',
       orders_row.order_status = ''delivered'',
       order_purchase_timestamp = Some 0, order_approved_at = Some 0,
       order_delivered_carrier_date = Some ns_per_day,
       order_delivered_customer_date = Some (10 * ns_per_day + ns_per_day div 2),
       order_estimated_delivery_date = Some (8 * ns_per_day) \<rparr>"

definition order_early :: orders_row where
  "order_early =
     \<lparr> orders_row.order_id = ''o2'', orders_row.customer_id = ''c2'',
       orders_row.order_status = ''delivered'',
       order_purchase_timestamp = Some 0, order_approved_at = Some 0,
       order_delivered_carrier_date = Some ns_per_day,
       order_delivered_customer_date = Some (5 * ns_per_day + ns_per_day div 2),
       order_estimated_delivery_date = Some (8 * ns_per_day) \<rparr>"

definition order_undated :: orders_row where
  "order_undated =
     \<lparr> orders_row.order_id = ''o3'', orders_row.customer_id = ''c3'',
       orders_row.order_status = ''delivered'',
       order_purchase_timestamp = Some 0, order_approved_at = None,
       order_delivered_carrier_date = Some ns_per_day,
       order_delivered_customer_date = None,
       order_estimated_delivery_date = Some (8 * ns_per_day) \<rparr>"

definition order_shipped :: orders_row where
  "order_shipped =
     \<lparr> orders_row.order_id = ''o4'', orders_row.customer_id = ''c4'',
       orders_row.order_status = ''shipped'',
       order_purchase_timestamp = Some 0, order_approved_at = Some 0,
       order_delivered_carrier_date = Some ns_per_day,
       order_delivered_customer_date = None,
       order_estimated_delivery_date = Some (8 * ns_per_day) \<rparr>"

definition orders_only :: "orders_row list \<Rightarrow> dataset" where
  "orders_only rs =
     \<lparr> orders = rs, order_reviews = [], order_items = [], sellers = [], customers = [],
       geolocation = [] \<rparr>"

text \<open>Four reviews (scores 5, 1, 3 and a missing score) and three order items: two items
  of order \<open>o1\<close> from one seller, priced 10.0 and 5.5 with freight 2.0 and 1.0, and one
  item of order \<open>o2\<close>.\<close>

definition reviews_example :: dataset where
  "reviews_example =
     \<lparr> orders = [],
       order_reviews =
         [\<lparr> order_reviews_row.order_id = ''o1'', order_reviews_row.review_score = Some 5 \<rparr>,
          \<lparr> order_reviews_row.order_id = ''o2'', order_reviews_row.review_score = Some 1 \<rparr>,
          \<lparr> order_reviews_row.order_id = ''o3'', order_reviews_row.review_score = Some 3 \<rparr>,
          \<lparr> order_reviews_row.order_id = ''o4'', order_reviews_row.review_score = None \<rparr>],
       order_items = [], sellers = [], customers = [], geolocation = [] \<rparr>"

definition items_example :: dataset where
  "items_example =
     \<lparr> orders = [], order_reviews = [],
       order_items =
         [\<lparr> order_items_row.order_id = ''o1'', order_item_id = 1,
            order_items_row.seller_id = ''s1'',
            order_items_row.price = 10, order_items_row.freight_value = 2 \<rparr>,
          \<lparr> order_items_row.order_id = ''o2'', order_item_id = 1,
            order_items_row.seller_id = ''s2'',
            order_items_row.price = 20, order_items_row.freight_value = 4 \<rparr>,
          \<lparr> order_items_row.order_id = ''o1'', order_item_id = 2,
            order_items_row.seller_id = ''s1'',
            order_items_row.price = 11 / 2, order_items_row.freight_value = 1 \<rparr>],
       sellers = [], customers = [], geolocation = [] \<rparr>"

text \<open>Three environments of the loader: the directory is missing; the directory lists
  one CSV file that cannot be opened; the directory lists two CSV files and a text file,
  all readable (a parsed table is represented by a number).\<close>

definition missing_dir_env :: "nat environment" where
  "missing_dir_env =
     \<lparr> listdir = (\<lambda>p. Inl (OSError FileNotFoundError)),
       read_csv = (\<lambda>p. Inl (OSError FileNotFoundError)) \<rparr>"

definition unreadable_file_env :: "nat environment" where
  "unreadable_file_env =
     \<lparr> listdir = (\<lambda>p. if p = ''/repo/data/csv'' then Inr [''olist_orders_dataset.csv'']
                        else Inl (OSError FileNotFoundError)),
       read_csv = (\<lambda>p. Inl (OSError PermissionError)) \<rparr>"

definition readable_env :: "nat environment" where
  "readable_env =
     \<lparr> listdir = (\<lambda>p. if p = ''/repo/data/csv''
                        then Inr [''olist_orders_dataset.csv'', ''notes.txt'', ''sellers.csv'']
                        else Inl (OSError FileNotFoundError)),
       read_csv = (\<lambda>p. if p = ''/repo/data/csv/olist_orders_dataset.csv'' then Inr 1
                         else if p = ''/repo/data/csv/sellers.csv'' then Inr 2
                         else Inl (OSError FileNotFoundError)) \<rparr>"

text \<open>Five delivered orders with all their timestamps and one item each; the orders
  \<open>o1\<close> to \<open>o4\<close> have one review each, the order \<open>o5\<close> has none.\<close>

definition delivered_order :: "string \<Rightarrow> orders_row" where
  "delivered_order k =
     \<lparr> orders_row.order_id = k, orders_row.customer_id = ''c1'',
       orders_row.order_status = ''delivered'',
       order_purchase_timestamp = Some 0, order_approved_at = Some 0,
       order_delivered_carrier_date = Some ns_per_day,
       order_delivered_customer_date = Some (5 * ns_per_day),
       order_estimated_delivery_date = Some (8 * ns_per_day) \<rparr>"

definition scored_review :: "string \<Rightarrow> int \<Rightarrow> order_reviews_row" where
  "scored_review k n =
     \<lparr> order_reviews_row.order_id = k, order_reviews_row.review_score = Some n \<rparr>"

definition single_item :: "string \<Rightarrow> order_items_row" where
  "single_item k =
     \<lparr> order_items_row.order_id = k, order_item_id = 1, order_items_row.seller_id = ''s1'',
       order_items_row.price = 10, order_items_row.freight_value = 2 \<rparr>"

definition five_orders :: dataset where
  "five_orders =
     \<lparr> orders = map delivered_order [''o1'', ''o2'', ''o3'', ''o4'', ''o5''],
       order_reviews = [scored_review ''o1'' 5, scored_review ''o2'' 4, scored_review ''o3'' 1,
                        scored_review ''o4'' 3],
       order_items = map single_item [''o3'', ''o1'', ''o2'', ''o5'', ''o4''],
       sellers = [], customers = [], geolocation = [] \<rparr>"

text \<open>One order with two items whose sequence numbers are the largest 64-bit signed
  integer and 1.\<close>

definition items_wrap_example :: dataset where
  "items_wrap_example =
     \<lparr> orders = [], order_reviews = [],
       order_items =
         [\<lparr> order_items_row.order_id = ''o1'', order_item_id = 9223372036854775807,
            order_items_row.seller_id = ''s1'',
            order_items_row.price = 10, order_items_row.freight_value = 2 \<rparr>,
          \<lparr> order_items_row.order_id = ''o1'', order_item_id = 1,
            order_items_row.seller_id = ''s1'',
            order_items_row.price = 10, order_items_row.freight_value = 2 \<rparr>],
       sellers = [], customers = [], geolocation = [] \<rparr>"

text \<open>A fourth environment of the loader: the directory lists two CSV files and a text
  file; the first CSV file is parsed, the second is malformed.\<close>

definition second_read_fails_env :: "nat environment" where
  "second_read_fails_env =
     \<lparr> listdir = (\<lambda>p. if p = ''/repo/data/csv''
                        then Inr [''olist_orders_dataset.csv'', ''notes.txt'', ''sellers.csv'']
                        else Inl (OSError FileNotFoundError)),
       read_csv = (\<lambda>p. if p = ''/repo/data/csv/olist_orders_dataset.csv'' then Inr 1
                         else if p = ''/repo/data/csv/sellers.csv'' then Inl ParserError
                         else Inl (OSError FileNotFoundError)) \<rparr>"

section \<open>Properties of the wait-time derivation\<close>

lemma clamp_delay_nonneg: "0 \<le> clamp_delay x"
  by (simp add: clamp_delay_def split: option.split)

lemma get_wait_time_flag_irrelevant: "get_wait_time d False = get_wait_time d True"
  by (simp add: get_wait_time_def)

lemma get_wait_time_all_delivered:
  "r \<in> set (get_wait_time d b) \<Longrightarrow> wait_row.order_status r = ''delivered''"
  by (auto simp: get_wait_time_def wait_time_row_def)

lemma get_wait_time_length:
  "length (get_wait_time d b) =
   length (filter (\<lambda>r. orders_row.order_status r = ''delivered'') (orders d))"
  by (simp add: get_wait_time_def)

lemma get_wait_time_nth:
  assumes "i < length (filter (\<lambda>r. orders_row.order_status r = ''delivered'') (orders d))"
  shows "get_wait_time d b ! i =
         wait_time_row (filter (\<lambda>r. orders_row.order_status r = ''delivered'') (orders d) ! i)"
  using assms by (simp add: get_wait_time_def)

lemma days_bracket:
  fixes t :: int
  shows "(t div ns_per_day) * ns_per_day \<le> t \<and> t < (t div ns_per_day + 1) * ns_per_day"
proof -
  define q where "q = t div ns_per_day"
  define m where "m = t mod ns_per_day"
  have pos: "0 < ns_per_day" by (simp add: ns_per_day_def)
  have eq: "t = q * ns_per_day + m" by (simp add: q_def m_def)
  have lo: "0 \<le> m" and hi: "m < ns_per_day"
    using pos by (simp_all add: m_def)
  have "(q + 1) * ns_per_day = q * ns_per_day + ns_per_day"
    by (simp add: algebra_simps)
  with eq lo hi have "q * ns_per_day \<le> t \<and> t < (q + 1) * ns_per_day"
    by linarith
  then show ?thesis by (simp add: q_def)
qed

lemma delay_of_present:
  assumes "order_delivered_customer_date r = Some a"
    and "order_estimated_delivery_date r = Some e"
  shows "delay_vs_expected (wait_time_row r) = max 0 ((a - e) div ns_per_day)"
  using assms by (simp add: wait_time_row_def ts_sub_def dt_days_def clamp_delay_def max_def)

text \<open>
  Claim C1 (second half, evaluated on the code): called with \<^verbatim>\<open>is_delivered=False\<close> on
  an orders table whose single row has status "shipped", \<^verbatim>\<open>get_wait_time\<close> returns the
  empty table: the status filter is applied although the flag asks for none.
\<close>

theorem get_wait_time_not_delivered_flag_filtered:
  "get_wait_time
     \<lparr> orders = [\<lparr> orders_row.order_id = ''o1'', orders_row.customer_id = ''c1'',
                    orders_row.order_status = ''shipped'',
                    order_purchase_timestamp = Some 0, order_approved_at = Some 0,
                    order_delivered_carrier_date = Some 0,
                    order_delivered_customer_date = Some 0,
                    order_estimated_delivery_date = Some 0 \<rparr>],
       order_reviews = [], order_items = [], sellers = [], customers = [],
       geolocation = [] \<rparr> False = []"
  by (simp add: get_wait_time_def)

text \<open>
  Claim C5: row \<open>i\<close> of the wait-time table comes from the \<open>i\<close>-th delivered order. When
  that order has both its customer-delivery timestamp \<open>a\<close> and its estimated-delivery
  timestamp \<open>e\<close>, \<^verbatim>\<open>delay_vs_expected\<close> is the number of whole days of \<open>a - e\<close>, replaced
  by zero when it is negative: it is \<open>0\<close> for \<open>a < e\<close>, and for \<open>e \<le> a\<close> it is the number
  \<open>n\<close> of days with \<open>n\<close> days \<open>\<le> a - e <\<close> \<open>n + 1\<close> days. In every row of the table
  \<^verbatim>\<open>delay_vs_expected\<close> is at least zero.
\<close>

theorem delay_vs_expected_clamped:
  "(\<forall>w \<in> set (get_wait_time d b). 0 \<le> delay_vs_expected w) \<and>
   length (get_wait_time d b) =
     length (filter (\<lambda>r. orders_row.order_status r = ''delivered'') (orders d)) \<and>
   (\<forall>i < length (get_wait_time d b).
      wait_row.order_id (get_wait_time d b ! i) =
        orders_row.order_id
          (filter (\<lambda>r. orders_row.order_status r = ''delivered'') (orders d) ! i) \<and>
      (\<forall>a e.
         order_delivered_customer_date
           (filter (\<lambda>r. orders_row.order_status r = ''delivered'') (orders d) ! i) = Some a \<and>
         order_estimated_delivery_date
           (filter (\<lambda>r. orders_row.order_status r = ''delivered'') (orders d) ! i) = Some e
         \<longrightarrow>
           delay_vs_expected (get_wait_time d b ! i) = max 0 ((a - e) div ns_per_day) \<and>
           (a < e \<longrightarrow> delay_vs_expected (get_wait_time d b ! i) = 0) \<and>
           (e \<le> a \<longrightarrow>
              delay_vs_expected (get_wait_time d b ! i) * ns_per_day \<le> a - e \<and>
              a - e < (delay_vs_expected (get_wait_time d b ! i) + 1) * ns_per_day)))"
proof (intro conjI allI impI ballI)
  fix w assume "w \<in> set (get_wait_time d b)"
  then show "0 \<le> delay_vs_expected w"
    by (auto simp: get_wait_time_def wait_time_row_def clamp_delay_nonneg)
next
  show "length (get_wait_time d b) =
     length (filter (\<lambda>r. orders_row.order_status r = ''delivered'') (orders d))"
    by (rule get_wait_time_length)
next
  fix i assume i: "i < length (get_wait_time d b)"
  then show "wait_row.order_id (get_wait_time d b ! i) =
        orders_row.order_id
          (filter (\<lambda>r. orders_row.order_status r = ''delivered'') (orders d) ! i)"
    by (simp add: get_wait_time_def wait_time_row_def)
next
  fix i a e
  let ?r = "filter (\<lambda>r. orders_row.order_status r = ''delivered'') (orders d) ! i"
  assume i: "i < length (get_wait_time d b)"
    and ae: "order_delivered_customer_date ?r = Some a \<and>
             order_estimated_delivery_date ?r = Some e"
  have row: "get_wait_time d b ! i = wait_time_row ?r"
    using i by (simp add: get_wait_time_def)
  have val: "delay_vs_expected (get_wait_time d b ! i) = max 0 ((a - e) div ns_per_day)"
    using ae by (simp add: row delay_of_present)
  have pos: "0 < ns_per_day" by (simp add: ns_per_day_def)
  show "delay_vs_expected (get_wait_time d b ! i) = max 0 ((a - e) div ns_per_day)"
    by (rule val)
  {
    assume "a < e"
    then have "(a - e) div ns_per_day < 0"
      using pos by (simp add: div_neg_pos_less0)
    then show "delay_vs_expected (get_wait_time d b ! i) = 0"
      by (simp add: val)
  }
  {
    assume "e \<le> a"
    then have "0 \<le> (a - e) div ns_per_day"
      using pos by (simp add: pos_imp_zdiv_nonneg_iff)
    then have eq: "delay_vs_expected (get_wait_time d b ! i) = (a - e) div ns_per_day"
      by (simp add: val)
    show "delay_vs_expected (get_wait_time d b ! i) * ns_per_day \<le> a - e"
      using days_bracket [of "a - e"] by (simp add: eq)
    show "a - e < (delay_vs_expected (get_wait_time d b ! i) + 1) * ns_per_day"
      using days_bracket [of "a - e"] by (simp add: eq)
  }
qed

theorem delay_vs_expected_clamped_witness:
  "(0::nat) < length (get_wait_time (orders_only [order_late, order_shipped, order_early]) True) \<and>
   order_delivered_customer_date order_late = Some (10 * ns_per_day + ns_per_day div 2) \<and>
   order_estimated_delivery_date order_late = Some (8 * ns_per_day) \<and>
   delay_vs_expected
     (get_wait_time (orders_only [order_late, order_shipped, order_early]) True ! 0) = 2 \<and>
   delay_vs_expected
     (get_wait_time (orders_only [order_late, order_shipped, order_early]) True ! 1) = 0"
proof -
  let ?d = "orders_only [order_late, order_shipped, order_early]"
  let ?f = "filter (\<lambda>r. orders_row.order_status r = ''delivered'') (orders ?d)"
  have f: "?f = [order_late, order_early]"
    by (simp add: orders_only_def order_late_def order_shipped_def order_early_def)
  have len: "length (get_wait_time ?d True) = 2"
    by (simp add: get_wait_time_length f)
  have i0: "(0::nat) < length (get_wait_time ?d True)"
    and i1: "(1::nat) < length (get_wait_time ?d True)"
    by (simp_all add: len)
  have a0: "order_delivered_customer_date (?f ! 0) = Some (10 * ns_per_day + ns_per_day div 2)"
    and e0: "order_estimated_delivery_date (?f ! 0) = Some (8 * ns_per_day)"
    by (simp_all add: f) (simp_all add: order_late_def)
  have a1: "order_delivered_customer_date (?f ! 1) = Some (5 * ns_per_day + ns_per_day div 2)"
    and e1: "order_estimated_delivery_date (?f ! 1) = Some (8 * ns_per_day)"
    by (simp_all add: f) (simp_all add: order_early_def)
  have all: "\<forall>i < length (get_wait_time ?d True). \<forall>a e.
         order_delivered_customer_date (?f ! i) = Some a \<and>
         order_estimated_delivery_date (?f ! i) = Some e
         \<longrightarrow> delay_vs_expected (get_wait_time ?d True ! i) = max 0 ((a - e) div ns_per_day)"
    using delay_vs_expected_clamped [of ?d True] by blast
  have d0: "delay_vs_expected (get_wait_time ?d True ! 0)
          = max 0 ((10 * ns_per_day + ns_per_day div 2 - 8 * ns_per_day) div ns_per_day)"
    using all i0 a0 e0 by blast
  have d1: "delay_vs_expected (get_wait_time ?d True ! 1)
          = max 0 ((5 * ns_per_day + ns_per_day div 2 - 8 * ns_per_day) div ns_per_day)"
    using all i1 a1 e1 by blast
  have v0: "max 0 ((10 * ns_per_day + ns_per_day div 2 - 8 * ns_per_day) div ns_per_day) = 2"
    by (simp add: ns_per_day_def)
  have v1: "max 0 ((5 * ns_per_day + ns_per_day div 2 - 8 * ns_per_day) div ns_per_day) = 0"
    by (simp add: ns_per_day_def)
  have "order_delivered_customer_date order_late = Some (10 * ns_per_day + ns_per_day div 2)"
    and "order_estimated_delivery_date order_late = Some (8 * ns_per_day)"
    by (simp_all add: order_late_def)
  with i0 d0 d1 v0 v1 show ?thesis by simp
qed

text \<open>
  Claim C3, as stated, at a concrete input: a delivered order whose customer-delivery
  timestamp (and approval timestamp) is missing is not dropped by the wait-time
  derivation. Its row is returned, with a missing \<^verbatim>\<open>wait_time\<close> and a zero delay.
\<close>

theorem get_wait_time_missing_timestamp_kept:
  "order_delivered_customer_date order_undated = None \<and>
   order_approved_at order_undated = None \<and>
   get_wait_time (orders_only [order_undated]) True =
     [\<lparr> wait_row.order_id = ''o3'', wait_time = None,
        expected_wait_time = Some (8 * ns_per_day), delay_vs_expected = 0,
        wait_row.order_status = ''delivered'' \<rparr>]"
  by (simp add: get_wait_time_def orders_only_def order_undated_def wait_time_row_def
      ts_sub_def dt_days_def clamp_delay_def)

text \<open>
  Claim C3, amended: a missing timestamp neither raises nor drops a row. The wait-time
  table has one row for each input row with status "delivered", in the same order,
  whatever timestamps are missing. In that row \<^verbatim>\<open>wait_time\<close> is missing exactly when the
  customer-delivery or the purchase timestamp is, \<^verbatim>\<open>expected_wait_time\<close> is missing
  exactly when the estimated-delivery or the purchase timestamp is, and
  \<^verbatim>\<open>delay_vs_expected\<close> is 0 when the customer-delivery or the estimated-delivery
  timestamp is missing.
\<close>

theorem get_wait_time_missing_timestamps:
  "map wait_row.order_id (get_wait_time d b) =
     map orders_row.order_id
       (filter (\<lambda>r. orders_row.order_status r = ''delivered'') (orders d)) \<and>
   (\<forall>i < length (get_wait_time d b).
      (wait_time (get_wait_time d b ! i) = None \<longleftrightarrow>
         order_delivered_customer_date
           (filter (\<lambda>r. orders_row.order_status r = ''delivered'') (orders d) ! i) = None \<or>
         order_purchase_timestamp
           (filter (\<lambda>r. orders_row.order_status r = ''delivered'') (orders d) ! i) = None) \<and>
      (expected_wait_time (get_wait_time d b ! i) = None \<longleftrightarrow>
         order_estimated_delivery_date
           (filter (\<lambda>r. orders_row.order_status r = ''delivered'') (orders d) ! i) = None \<or>
         order_purchase_timestamp
           (filter (\<lambda>r. orders_row.order_status r = ''delivered'') (orders d) ! i) = None) \<and>
      (order_delivered_customer_date
           (filter (\<lambda>r. orders_row.order_status r = ''delivered'') (orders d) ! i) = None \<or>
       order_estimated_delivery_date
           (filter (\<lambda>r. orders_row.order_status r = ''delivered'') (orders d) ! i) = None
       \<longrightarrow> delay_vs_expected (get_wait_time d b ! i) = 0))"
proof (intro conjI allI impI)
  show "map wait_row.order_id (get_wait_time d b) =
     map orders_row.order_id
       (filter (\<lambda>r. orders_row.order_status r = ''delivered'') (orders d))"
    by (simp add: get_wait_time_def wait_time_row_def)
next
  fix i assume "i < length (get_wait_time d b)"
  then show "wait_time (get_wait_time d b ! i) = None \<longleftrightarrow>
         order_delivered_customer_date
           (filter (\<lambda>r. orders_row.order_status r = ''delivered'') (orders d) ! i) = None \<or>
         order_purchase_timestamp
           (filter (\<lambda>r. orders_row.order_status r = ''delivered'') (orders d) ! i) = None"
    by (simp add: get_wait_time_def wait_time_row_def ts_sub_def split: option.split)
next
  fix i assume "i < length (get_wait_time d b)"
  then show "expected_wait_time (get_wait_time d b ! i) = None \<longleftrightarrow>
         order_estimated_delivery_date
           (filter (\<lambda>r. orders_row.order_status r = ''delivered'') (orders d) ! i) = None \<or>
         order_purchase_timestamp
           (filter (\<lambda>r. orders_row.order_status r = ''delivered'') (orders d) ! i) = None"
    by (simp add: get_wait_time_def wait_time_row_def ts_sub_def split: option.split)
next
  fix i
  assume "i < length (get_wait_time d b)"
    and "order_delivered_customer_date
           (filter (\<lambda>r. orders_row.order_status r = ''delivered'') (orders d) ! i) = None \<or>
       order_estimated_delivery_date
           (filter (\<lambda>r. orders_row.order_status r = ''delivered'') (orders d) ! i) = None"
  then show "delay_vs_expected (get_wait_time d b ! i) = 0"
    by (auto simp: get_wait_time_def wait_time_row_def ts_sub_def dt_days_def clamp_delay_def
        split: option.split)
qed

theorem get_wait_time_missing_timestamps_witness:
  "(0::nat) < length (get_wait_time (orders_only [order_undated, order_shipped]) False) \<and>
   order_delivered_customer_date order_undated = None \<and>
   map wait_row.order_id (get_wait_time (orders_only [order_undated, order_shipped]) False)
     = [''o3''] \<and>
   wait_time (get_wait_time (orders_only [order_undated, order_shipped]) False ! 0) = None \<and>
   delay_vs_expected (get_wait_time (orders_only [order_undated, order_shipped]) False ! 0) = 0"
proof -
  let ?d = "orders_only [order_undated, order_shipped]"
  let ?f = "filter (\<lambda>r. orders_row.order_status r = ''delivered'') (orders ?d)"
  have f: "?f = [order_undated]"
    by (simp add: orders_only_def order_undated_def order_shipped_def)
  have i0: "(0::nat) < length (get_wait_time ?d False)"
    by (simp add: get_wait_time_length f)
  have none: "order_delivered_customer_date (?f ! 0) = None"
    by (simp add: f) (simp add: order_undated_def)
  note inst = get_wait_time_missing_timestamps [of ?d False]
  have ids: "map wait_row.order_id (get_wait_time ?d False) = [''o3'']"
    using inst by (simp add: f) (simp add: order_undated_def)
  have w: "wait_time (get_wait_time ?d False ! 0) = None"
    using inst i0 none by blast
  have dl: "delay_vs_expected (get_wait_time ?d False ! 0) = 0"
    using inst i0 none by blast
  have "order_delivered_customer_date order_undated = None"
    by (simp add: order_undated_def)
  with i0 ids w dl show ?thesis by simp
qed

section \<open>Properties of the review-score derivation\<close>

text \<open>
  Claim C7: the review-score table has one row per review, with its order id and score.
  In every row \<^verbatim>\<open>dim_is_five_star\<close> is 1 if the score equals 5 and 0 otherwise,
  \<^verbatim>\<open>dim_is_one_star\<close> is 1 if the score equals 1 and 0 otherwise, and the two indicators
  are never both 1.
\<close>

theorem review_score_indicators:
  "map review_row.order_id (get_review_score d) =
     map order_reviews_row.order_id (order_reviews d) \<and>
   map review_row.review_score (get_review_score d) =
     map order_reviews_row.review_score (order_reviews d) \<and>
   (\<forall>r \<in> set (get_review_score d).
      dim_is_five_star r = (if review_row.review_score r = Some 5 then 1 else 0) \<and>
      dim_is_one_star r = (if review_row.review_score r = Some 1 then 1 else 0) \<and>
      (dim_is_five_star r = 1 \<longleftrightarrow> review_row.review_score r = Some 5) \<and>
      (dim_is_one_star r = 1 \<longleftrightarrow> review_row.review_score r = Some 1) \<and>
      \<not> (dim_is_five_star r = 1 \<and> dim_is_one_star r = 1))"
  by (auto simp: get_review_score_def is_five_star_def is_one_star_def)

theorem review_score_indicators_witness:
  "\<lparr> review_row.order_id = ''o1'', dim_is_five_star = 1, dim_is_one_star = 0,
      review_row.review_score = Some 5 \<rparr> \<in> set (get_review_score reviews_example) \<and>
   \<lparr> review_row.order_id = ''o4'', dim_is_five_star = 0, dim_is_one_star = 0,
      review_row.review_score = None \<rparr> \<in> set (get_review_score reviews_example) \<and>
   map review_row.order_id (get_review_score reviews_example) = [''o1'', ''o2'', ''o3'', ''o4''] \<and>
   map dim_is_five_star (get_review_score reviews_example) = [1, 0, 0, 0] \<and>
   map dim_is_one_star (get_review_score reviews_example) = [0, 1, 0, 0]"
proof -
  note inst = review_score_indicators [of reviews_example]
  have ids: "map review_row.order_id (get_review_score reviews_example)
               = [''o1'', ''o2'', ''o3'', ''o4'']"
    using inst by (simp add: reviews_example_def)
  have rows: "get_review_score reviews_example =
     [\<lparr> review_row.order_id = ''o1'', dim_is_five_star = 1, dim_is_one_star = 0,
        review_row.review_score = Some 5 \<rparr>,
      \<lparr> review_row.order_id = ''o2'', dim_is_five_star = 0, dim_is_one_star = 1,
        review_row.review_score = Some 1 \<rparr>,
      \<lparr> review_row.order_id = ''o3'', dim_is_five_star = 0, dim_is_one_star = 0,
        review_row.review_score = Some 3 \<rparr>,
      \<lparr> review_row.order_id = ''o4'', dim_is_five_star = 0, dim_is_one_star = 0,
        review_row.review_score = None \<rparr>]"
    by (simp add: get_review_score_def reviews_example_def is_five_star_def is_one_star_def)
  show ?thesis using ids by (simp add: rows)
qed

section \<open>Properties of the derivations over the order items\<close>

lemma group_keys_set: "set (group_keys k rows) = k ` set rows"
  by (simp add: group_keys_def)

lemma group_keys_distinct: "distinct (group_keys k rows)"
  by (simp add: group_keys_def)

lemma group_keys_sorted: "sorted (group_keys k rows)"
  by (simp add: group_keys_def)

lemma group_rows_nonempty: "key \<in> k ` set rows \<Longrightarrow> group_rows k rows key \<noteq> []"
  by (auto simp: group_rows_def filter_empty_conv)

lemma sum_list_word_of_int:
  "(sum_list ws :: 64 word) = word_of_int (sum_list (map sint ws))"
  by (induction ws) simp_all

lemma sint_sum_list:
  "sint (sum_list ws :: 64 word) = signed_take_bit 63 (sum_list (map sint ws))"
proof -
  have "sint (word_of_int (sum_list (map sint ws)) :: 64 word) =
        signed_take_bit 63 (sum_list (map sint ws))"
    by (simp add: sint_sbintrunc')
  then show ?thesis by (simp only: sum_list_word_of_int [symmetric])
qed

lemma sint_sum_list_in_range:
  assumes "- (2 ^ 63) \<le> sum_list (map sint ws)" and "sum_list (map sint ws) < 2 ^ 63"
  shows "sint (sum_list ws :: 64 word) = sum_list (map sint ws)"
  using assms by (simp add: sint_sum_list signed_take_bit_int_eq_self)

text \<open>
  Claim C4: the product-count table has one row per order id of the order items, in
  ascending order, and its \<^verbatim>\<open>number_of_products\<close> is the sum of the \<^verbatim>\<open>order_item_id\<close> values
  of that order's rows, computed in the 64-bit signed integers of the column. Read as a
  signed number it is the mathematical sum of the values reduced to the 64-bit range, and
  so the mathematical sum itself whenever that sum lies between \<open>-2\<^sup>6\<^sup>3\<close> and \<open>2\<^sup>6\<^sup>3 - 1\<close>.
  It is a sum of ordinals and not a count of rows: for the order \<open>o1\<close> of the example,
  with items numbered 1 and 2, it is 3 (the order has 2 rows).
\<close>

theorem number_of_products_is_sum:
  "distinct (map products_row.order_id (get_number_products d)) \<and>
   sorted (map products_row.order_id (get_number_products d)) \<and>
   set (map products_row.order_id (get_number_products d)) =
     order_items_row.order_id ` set (order_items d) \<and>
   (\<forall>p \<in> set (get_number_products d).
      number_of_products p =
        sum_list (map order_item_id
          (filter (\<lambda>i. order_items_row.order_id i = products_row.order_id p) (order_items d))) \<and>
      sint (number_of_products p) =
        signed_take_bit 63
          (sum_list (map (\<lambda>i. sint (order_item_id i))
            (filter (\<lambda>i. order_items_row.order_id i = products_row.order_id p)
               (order_items d)))) \<and>
      (- (2 ^ 63) \<le>
         sum_list (map (\<lambda>i. sint (order_item_id i))
           (filter (\<lambda>i. order_items_row.order_id i = products_row.order_id p) (order_items d))) \<and>
       sum_list (map (\<lambda>i. sint (order_item_id i))
           (filter (\<lambda>i. order_items_row.order_id i = products_row.order_id p) (order_items d)))
         < 2 ^ 63
       \<longrightarrow>
       sint (number_of_products p) =
         sum_list (map (\<lambda>i. sint (order_item_id i))
           (filter (\<lambda>i. order_items_row.order_id i = products_row.order_id p)
              (order_items d))))) \<and>
   get_number_products items_example =
     [\<lparr> products_row.order_id = ''o1'', number_of_products = 3 \<rparr>,
      \<lparr> products_row.order_id = ''o2'', number_of_products = 1 \<rparr>] \<and>
   length (filter (\<lambda>i. order_items_row.order_id i = ''o1'') (order_items items_example)) = 2"
proof (intro conjI ballI impI)
  have ids: "map products_row.order_id (get_number_products d) =
             group_keys order_items_row.order_id (order_items d)"
    by (simp add: get_number_products_def comp_def)
  show "distinct (map products_row.order_id (get_number_products d))"
    by (simp add: ids group_keys_distinct)
  show "sorted (map products_row.order_id (get_number_products d))"
    by (simp add: ids group_keys_sorted)
  show "set (map products_row.order_id (get_number_products d)) =
     order_items_row.order_id ` set (order_items d)"
    by (simp only: ids group_keys_set)
next
  fix p assume "p \<in> set (get_number_products d)"
  then show "number_of_products p =
        sum_list (map order_item_id
          (filter (\<lambda>i. order_items_row.order_id i = products_row.order_id p) (order_items d)))"
    by (auto simp: get_number_products_def group_rows_def)
next
  fix p assume "p \<in> set (get_number_products d)"
  then have "number_of_products p =
        sum_list (map order_item_id
          (filter (\<lambda>i. order_items_row.order_id i = products_row.order_id p) (order_items d)))"
    by (auto simp: get_number_products_def group_rows_def)
  then show "sint (number_of_products p) =
        signed_take_bit 63
          (sum_list (map (\<lambda>i. sint (order_item_id i))
            (filter (\<lambda>i. order_items_row.order_id i = products_row.order_id p)
               (order_items d))))"
    by (simp add: sint_sum_list comp_def)
next
  fix p :: products_row
  let ?g = "filter (\<lambda>i. order_items_row.order_id i = products_row.order_id p) (order_items d)"
  assume "p \<in> set (get_number_products d)"
    and range: "- (2 ^ 63) \<le> sum_list (map (\<lambda>i. sint (order_item_id i)) ?g) \<and>
                sum_list (map (\<lambda>i. sint (order_item_id i)) ?g) < 2 ^ 63"
  then have n: "number_of_products p = sum_list (map order_item_id ?g)"
    by (auto simp: get_number_products_def group_rows_def)
  have m: "map sint (map order_item_id ?g) = map (\<lambda>i. sint (order_item_id i)) ?g"
    by (simp add: comp_def)
  have "sint (sum_list (map order_item_id ?g)) = sum_list (map sint (map order_item_id ?g))"
    using range by (intro sint_sum_list_in_range) (simp_all only: m)
  then show "sint (number_of_products p) = sum_list (map (\<lambda>i. sint (order_item_id i)) ?g)"
    by (simp only: n m)
next
  show "get_number_products items_example =
     [\<lparr> products_row.order_id = ''o1'', number_of_products = 3 \<rparr>,
      \<lparr> products_row.order_id = ''o2'', number_of_products = 1 \<rparr>]"
    by (simp add: get_number_products_def items_example_def group_keys_def group_rows_def)
next
  show "length (filter (\<lambda>i. order_items_row.order_id i = ''o1'') (order_items items_example)) = 2"
    by (simp add: items_example_def)
qed

theorem number_of_products_is_sum_witness:
  "\<lparr> products_row.order_id = ''o1'', number_of_products = 3 \<rparr>
     \<in> set (get_number_products items_example) \<and>
   sum_list (map (\<lambda>i. sint (order_item_id i))
     (filter (\<lambda>i. order_items_row.order_id i = ''o1'') (order_items items_example))) = 3 \<and>
   - (2 ^ 63) \<le> (3::int) \<and> (3::int) < 2 ^ 63 \<and>
   sint (number_of_products \<lparr> products_row.order_id = ''o1'', number_of_products = 3 \<rparr>) = 3"
proof -
  let ?p = "\<lparr> products_row.order_id = ''o1'', number_of_products = 3 \<rparr>"
  let ?g = "filter (\<lambda>i. order_items_row.order_id i = products_row.order_id ?p)
              (order_items items_example)"
  note inst = number_of_products_is_sum [of items_example]
  have mem: "?p \<in> set (get_number_products items_example)"
    using inst by simp
  have total: "sum_list (map (\<lambda>i. sint (order_item_id i)) ?g) = 3"
    by (simp add: items_example_def)
  have range: "- (2 ^ 63) \<le> sum_list (map (\<lambda>i. sint (order_item_id i)) ?g) \<and>
               sum_list (map (\<lambda>i. sint (order_item_id i)) ?g) < 2 ^ 63"
    by (simp only: total) simp
  have "sint (number_of_products ?p) = sum_list (map (\<lambda>i. sint (order_item_id i)) ?g)"
    using inst mem range by blast
  then have "sint (number_of_products ?p) = 3"
    by (simp only: total)
  moreover have "sum_list (map (\<lambda>i. sint (order_item_id i))
     (filter (\<lambda>i. order_items_row.order_id i = ''o1'') (order_items items_example))) = 3"
    using total by simp
  ultimately show ?thesis using mem by simp
qed

text \<open>Beyond the 64-bit range the sum wraps around: an order with the items
  \<open>2\<^sup>6\<^sup>3 - 1\<close> and \<open>1\<close> gets \<open>-2\<^sup>6\<^sup>3\<close>.\<close>

lemma number_of_products_wraps:
  "map (\<lambda>p. sint (number_of_products p)) (get_number_products items_wrap_example)
     = [- 9223372036854775808]"
  by (simp add: get_number_products_def items_wrap_example_def group_keys_def group_rows_def)

text \<open>
  Claim C8: the seller-count table has one row per order id of the order items, in
  ascending order; its \<^verbatim>\<open>number_of_sellers\<close> is the number of distinct seller ids among
  that order's rows, which is at most the number of those rows.
\<close>

theorem number_of_sellers_distinct_count:
  "distinct (map sellers_count_row.order_id (get_number_sellers d)) \<and>
   sorted (map sellers_count_row.order_id (get_number_sellers d)) \<and>
   set (map sellers_count_row.order_id (get_number_sellers d)) =
     order_items_row.order_id ` set (order_items d) \<and>
   (\<forall>s \<in> set (get_number_sellers d).
      number_of_sellers s =
        card (order_items_row.seller_id `
          {i \<in> set (order_items d). order_items_row.order_id i = sellers_count_row.order_id s}) \<and>
      number_of_sellers s \<le>
        length (filter (\<lambda>i. order_items_row.order_id i = sellers_count_row.order_id s)
                  (order_items d)))"
proof (intro conjI ballI)
  have ids: "map sellers_count_row.order_id (get_number_sellers d) =
             group_keys order_items_row.order_id (order_items d)"
    by (simp add: get_number_sellers_def comp_def)
  show "distinct (map sellers_count_row.order_id (get_number_sellers d))"
    by (simp add: ids group_keys_distinct)
  show "sorted (map sellers_count_row.order_id (get_number_sellers d))"
    by (simp add: ids group_keys_sorted)
  show "set (map sellers_count_row.order_id (get_number_sellers d)) =
     order_items_row.order_id ` set (order_items d)"
    by (simp only: ids group_keys_set)
next
  fix s assume s: "s \<in> set (get_number_sellers d)"
  let ?g = "filter (\<lambda>i. order_items_row.order_id i = sellers_count_row.order_id s) (order_items d)"
  have n: "number_of_sellers s = length (remdups (map order_items_row.seller_id ?g))"
    using s by (auto simp: get_number_sellers_def group_rows_def)
  have "set ?g = {i \<in> set (order_items d). order_items_row.order_id i = sellers_count_row.order_id s}"
    by auto
  then show "number_of_sellers s =
        card (order_items_row.seller_id `
          {i \<in> set (order_items d). order_items_row.order_id i = sellers_count_row.order_id s})"
    by (simp add: n length_remdups_card_conv)
  have "length (remdups (map order_items_row.seller_id ?g)) \<le> length (map order_items_row.seller_id ?g)"
    by (rule length_remdups_leq)
  then show "number_of_sellers s \<le> length ?g"
    by (simp add: n)
qed

theorem number_of_sellers_distinct_count_witness:
  "\<lparr> sellers_count_row.order_id = ''o1'', number_of_sellers = 1 \<rparr>
     \<in> set (get_number_sellers items_example) \<and>
   length (filter (\<lambda>i. order_items_row.order_id i = ''o1'') (order_items items_example)) = 2 \<and>
   card (order_items_row.seller_id `
          {i \<in> set (order_items items_example). order_items_row.order_id i = ''o1''}) = 1"
proof -
  let ?s = "\<lparr> sellers_count_row.order_id = ''o1'', number_of_sellers = 1 \<rparr>"
  have rows: "get_number_sellers items_example =
     [?s, \<lparr> sellers_count_row.order_id = ''o2'', number_of_sellers = 1 \<rparr>]"
    by (simp add: get_number_sellers_def items_example_def group_keys_def group_rows_def)
  have mem: "?s \<in> set (get_number_sellers items_example)"
    by (simp add: rows)
  have "number_of_sellers ?s =
        card (order_items_row.seller_id `
          {i \<in> set (order_items items_example).
             order_items_row.order_id i = sellers_count_row.order_id ?s})"
    using number_of_sellers_distinct_count [of items_example] mem by blast
  moreover have
    "length (filter (\<lambda>i. order_items_row.order_id i = ''o1'') (order_items items_example)) = 2"
    by (simp add: items_example_def)
  ultimately show ?thesis using mem by simp
qed

text \<open>
  Claim C9: the price/freight table has one row per order id of the order items, in
  ascending order; its \<^verbatim>\<open>price\<close> is the sum of the prices of that order's rows and its
  \<^verbatim>\<open>freight_value\<close> the sum of their freight values, each column summed on its own. For
  the order \<open>o1\<close> of the example, with items priced 10.0 and 5.5 and freight 2.0 and 1.0,
  the row is \<open>price = 15.5\<close>, \<open>freight_value = 3.0\<close>.
\<close>

theorem price_and_freight_sums:
  "distinct (map price_freight_row.order_id (get_price_and_freight d)) \<and>
   sorted (map price_freight_row.order_id (get_price_and_freight d)) \<and>
   set (map price_freight_row.order_id (get_price_and_freight d)) =
     order_items_row.order_id ` set (order_items d) \<and>
   (\<forall>f \<in> set (get_price_and_freight d).
      price_freight_row.price f =
        sum_list (map order_items_row.price
          (filter (\<lambda>i. order_items_row.order_id i = price_freight_row.order_id f)
             (order_items d))) \<and>
      price_freight_row.freight_value f =
        sum_list (map order_items_row.freight_value
          (filter (\<lambda>i. order_items_row.order_id i = price_freight_row.order_id f)
             (order_items d)))) \<and>
   map order_items_row.price
     (filter (\<lambda>i. order_items_row.order_id i = ''o1'') (order_items items_example))
     = [10, 55 / 10] \<and>
   map order_items_row.freight_value
     (filter (\<lambda>i. order_items_row.order_id i = ''o1'') (order_items items_example))
     = [2, 1] \<and>
   get_price_and_freight items_example =
     [\<lparr> price_freight_row.order_id = ''o1'', price_freight_row.price = 155 / 10,
        price_freight_row.freight_value = 3 \<rparr>,
      \<lparr> price_freight_row.order_id = ''o2'', price_freight_row.price = 20,
        price_freight_row.freight_value = 4 \<rparr>]"
proof (intro conjI ballI)
  have ids: "map price_freight_row.order_id (get_price_and_freight d) =
             group_keys order_items_row.order_id (order_items d)"
    by (simp add: get_price_and_freight_def comp_def)
  show "distinct (map price_freight_row.order_id (get_price_and_freight d))"
    by (simp add: ids group_keys_distinct)
  show "sorted (map price_freight_row.order_id (get_price_and_freight d))"
    by (simp add: ids group_keys_sorted)
  show "set (map price_freight_row.order_id (get_price_and_freight d)) =
     order_items_row.order_id ` set (order_items d)"
    by (simp only: ids group_keys_set)
next
  fix f assume "f \<in> set (get_price_and_freight d)"
  then show "price_freight_row.price f =
        sum_list (map order_items_row.price
          (filter (\<lambda>i. order_items_row.order_id i = price_freight_row.order_id f)
             (order_items d)))"
    and "price_freight_row.freight_value f =
        sum_list (map order_items_row.freight_value
          (filter (\<lambda>i. order_items_row.order_id i = price_freight_row.order_id f)
             (order_items d)))"
    by (auto simp: get_price_and_freight_def group_rows_def)
next
  show "map order_items_row.price
     (filter (\<lambda>i. order_items_row.order_id i = ''o1'') (order_items items_example))
     = [10, 55 / 10]"
    by (simp add: items_example_def)
  show "map order_items_row.freight_value
     (filter (\<lambda>i. order_items_row.order_id i = ''o1'') (order_items items_example))
     = [2, 1]"
    by (simp add: items_example_def)
  show "get_price_and_freight items_example =
     [\<lparr> price_freight_row.order_id = ''o1'', price_freight_row.price = 155 / 10,
        price_freight_row.freight_value = 3 \<rparr>,
      \<lparr> price_freight_row.order_id = ''o2'', price_freight_row.price = 20,
        price_freight_row.freight_value = 4 \<rparr>]"
    by (simp add: get_price_and_freight_def items_example_def group_keys_def group_rows_def)
qed

theorem price_and_freight_sums_witness:
  "\<lparr> price_freight_row.order_id = ''o1'', price_freight_row.price = 155 / 10,
      price_freight_row.freight_value = 3 \<rparr> \<in> set (get_price_and_freight items_example) \<and>
   sum_list (map order_items_row.price
     (filter (\<lambda>i. order_items_row.order_id i = ''o1'') (order_items items_example)))
     = 155 / 10 \<and>
   sum_list (map order_items_row.freight_value
     (filter (\<lambda>i. order_items_row.order_id i = ''o1'') (order_items items_example))) = 3"
proof -
  let ?f = "\<lparr> price_freight_row.order_id = ''o1'', price_freight_row.price = 155 / 10,
      price_freight_row.freight_value = 3 \<rparr>"
  note inst = price_and_freight_sums [of items_example]
  have mem: "?f \<in> set (get_price_and_freight items_example)"
    using inst by simp
  have "price_freight_row.price ?f =
        sum_list (map order_items_row.price
          (filter (\<lambda>i. order_items_row.order_id i = price_freight_row.order_id ?f)
             (order_items items_example)))"
    and "price_freight_row.freight_value ?f =
        sum_list (map order_items_row.freight_value
          (filter (\<lambda>i. order_items_row.order_id i = price_freight_row.order_id ?f)
             (order_items items_example)))"
    using inst mem by blast+
  then show ?thesis using mem by simp
qed

section \<open>Properties of the haversine distance\<close>

lemma sin_poly10:
  fixes x :: real
  shows "(\<Sum>m<10. sin_coeff m * x ^ m) = x - x^3 / 6 + x^5 / 120 - x^7 / 5040 + x^9 / 362880"
proof -
  have set10: "{..<10::nat} = {0, 1, 2, 3, 4, 5, 6, 7, 8, 9}" by auto
  have c: "sin_coeff 0 = 0" "sin_coeff 1 = 1" "sin_coeff 2 = 0" "sin_coeff 3 = - 1 / 6"
    "sin_coeff 4 = 0" "sin_coeff 5 = 1 / 120" "sin_coeff 6 = 0" "sin_coeff 7 = - 1 / 5040"
    "sin_coeff 8 = 0" "sin_coeff 9 = 1 / 362880"
    by (simp_all add: sin_coeff_def fact_numeral)
  have c1: "sin_coeff (Suc 0) = 1"
    by (simp add: sin_coeff_def)
  show ?thesis
    unfolding set10 by (simp add: c c1)
qed

lemma sin_below_half: "sin (523598 / 1000000 :: real) < 1 / 2"
proof -
  let ?x = "523598 / 1000000 :: real"
  have "\<bar>sin ?x - (\<Sum>m<10. sin_coeff m * ?x ^ m)\<bar> \<le> inverse (fact 10) * \<bar>?x\<bar> ^ 10"
    by (rule Maclaurin_sin_bound)
  then have "sin ?x \<le> (?x - ?x^3 / 6 + ?x^5 / 120 - ?x^7 / 5040 + ?x^9 / 362880) + inverse (fact 10) * \<bar>?x\<bar> ^ 10"
    unfolding sin_poly10 by linarith
  also have "\<dots> < 1 / 2"
    by (simp add: fact_numeral power_divide)
  finally show ?thesis .
qed

lemma sin_above_half: "1 / 2 < sin (5236 / 10000 :: real)"
proof -
  let ?x = "5236 / 10000 :: real"
  have "\<bar>sin ?x - (\<Sum>m<10. sin_coeff m * ?x ^ m)\<bar> \<le> inverse (fact 10) * \<bar>?x\<bar> ^ 10"
    by (rule Maclaurin_sin_bound)
  then have "(?x - ?x^3 / 6 + ?x^5 / 120 - ?x^7 / 5040 + ?x^9 / 362880) - inverse (fact 10) * \<bar>?x\<bar> ^ 10 \<le> sin ?x"
    unfolding sin_poly10 by linarith
  moreover have "1 / 2 < (?x - ?x^3 / 6 + ?x^5 / 120 - ?x^7 / 5040 + ?x^9 / 362880) - inverse (fact 10) * \<bar>?x\<bar> ^ 10"
    by (simp add: fact_numeral power_divide)
  ultimately show ?thesis by linarith
qed

lemma pi_lower: "3141588 / 1000000 < pi"
proof (rule ccontr)
  assume "\<not> 3141588 / 1000000 < pi"
  then have le: "pi / 6 \<le> 523598 / 1000000" by simp
  have "sin (pi / 6) \<le> sin (523598 / 1000000 :: real)"
    using le pi_ge_two by (intro sin_monotone_2pi_le) simp_all
  then show False using sin_below_half by (simp add: sin_30)
qed

lemma pi_upper: "pi < 31416 / 10000"
proof (rule ccontr)
  assume "\<not> pi < 31416 / 10000"
  then have le: "5236 / 10000 \<le> pi / 6" by simp
  have "sin (5236 / 10000 :: real) \<le> sin (pi / 6)"
    using le pi_ge_two by (intro sin_monotone_2pi_le) simp_all
  then show False using sin_above_half by (simp add: sin_30)
qed

lemma haversine_distance_same_point: "haversine_distance lon lat lon lat = 0"
  by (simp add: haversine_distance_def Let_def)

lemma haversine_distance_quarter_circle: "haversine_distance 0 0 0 90 = 6371 * pi / 2"
proof -
  have pos: "0 \<le> sin (pi / 4)"
    by (simp add: sin_45)
  have "sqrt ((sin (pi / 4))\<^sup>2) = sin (pi / 4)"
    using pos by simp
  moreover have "arcsin (sin (pi / 4)) = pi / 4"
    by (rule arcsin_sin) simp_all
  ultimately have "arcsin (sqrt ((sin (pi / 4))\<^sup>2)) = pi / 4"
    by simp
  then show ?thesis
    by (simp add: haversine_distance_def Let_def radians_def earth_radius_km_def)
qed

text \<open>
  Claim C10: \<^verbatim>\<open>haversine_distance\<close> is the stated formula on the arguments converted to
  radians, with the radius 6371 km. The distance from (lon 0, lat 0) to itself is 0; the
  distance from (lon 0, lat 0) to (lon 0, lat 90) is a quarter of the great circle,
  \<open>6371 \<cdot> \<pi> / 2\<close>, which lies between 10007.5 and 10007.6 km.
\<close>

theorem haversine_distance_formula:
  "haversine_distance lon1 lat1 lon2 lat2 =
     2 * 6371 *
       arcsin (sqrt ((sin ((lat2 * pi / 180 - lat1 * pi / 180) / 2))\<^sup>2 +
                     cos (lat1 * pi / 180) * cos (lat2 * pi / 180) *
                     (sin ((lon2 * pi / 180 - lon1 * pi / 180) / 2))\<^sup>2)) \<and>
   haversine_distance 0 0 0 0 = 0 \<and>
   haversine_distance 0 0 0 90 = 6371 * pi / 2 \<and>
   100075 / 10 < haversine_distance 0 0 0 90 \<and>
   haversine_distance 0 0 0 90 < 100076 / 10"
proof (intro conjI)
  show "haversine_distance lon1 lat1 lon2 lat2 =
     2 * 6371 *
       arcsin (sqrt ((sin ((lat2 * pi / 180 - lat1 * pi / 180) / 2))\<^sup>2 +
                     cos (lat1 * pi / 180) * cos (lat2 * pi / 180) *
                     (sin ((lon2 * pi / 180 - lon1 * pi / 180) / 2))\<^sup>2))"
    by (simp add: haversine_distance_def Let_def radians_def earth_radius_km_def)
  show "haversine_distance 0 0 0 0 = 0"
    by (rule haversine_distance_same_point)
  show "haversine_distance 0 0 0 90 = 6371 * pi / 2"
    by (rule haversine_distance_quarter_circle)
  show "100075 / 10 < haversine_distance 0 0 0 90"
    using pi_lower by (simp add: haversine_distance_quarter_circle)
  show "haversine_distance 0 0 0 90 < 100076 / 10"
    using pi_upper by (simp add: haversine_distance_quarter_circle)
qed

section \<open>Properties of the dataset loader\<close>

lemma read_all_error:
  "fst (read_all env dir kfs data calls) = Inl e \<Longrightarrow>
   \<exists>f \<in> snd ` set kfs. read_csv env (path_join dir f) = Inl e"
proof (induction kfs arbitrary: data calls)
  case Nil
  then show ?case by simp
next
  case (Cons kf kfs)
  obtain k f where kf: "kf = (k, f)" by (cases kf)
  show ?case
  proof (cases "read_csv env (path_join dir f)")
    case (Inl e')
    with Cons.prems kf show ?thesis by simp
  next
    case (Inr t)
    with Cons.prems kf
    have "fst (read_all env dir kfs (data(k \<mapsto> t)) (calls @ [Read_csv (path_join dir f)])) = Inl e"
      by simp
    from Cons.IH [OF this] show ?thesis by auto
  qed
qed

text \<open>The loop stops at the first read that fails, with the error of that read, having
  read the files before it and that file, each once.\<close>

lemma read_all_first_failure:
  assumes "i < length kfs"
    and "read_csv env (path_join dir (snd (kfs ! i))) = Inl e"
    and "\<forall>j<i. \<exists>t. read_csv env (path_join dir (snd (kfs ! j))) = Inr t"
  shows "read_all env dir kfs data calls =
         (Inl e, calls @ map (\<lambda>f. Read_csv (path_join dir f)) (take (Suc i) (map snd kfs)))"
  using assms
proof (induction kfs arbitrary: i data calls)
  case Nil
  then show ?case by simp
next
  case (Cons kf kfs)
  obtain k f where kf: "kf = (k, f)" by (cases kf)
  show ?case
  proof (cases i)
    case 0
    with Cons.prems(2) kf have "read_csv env (path_join dir f) = Inl e"
      by simp
    then show ?thesis by (simp add: kf 0)
  next
    case (Suc i')
    from Cons.prems(3) Suc have "\<exists>t. read_csv env (path_join dir (snd ((kf # kfs) ! 0))) = Inr t"
      by blast
    then obtain t where t: "read_csv env (path_join dir f) = Inr t"
      by (auto simp: kf)
    have i': "i' < length kfs"
      using Cons.prems(1) Suc by simp
    have fail: "read_csv env (path_join dir (snd (kfs ! i'))) = Inl e"
      using Cons.prems(2) Suc by simp
    have before: "\<forall>j<i'. \<exists>t. read_csv env (path_join dir (snd (kfs ! j))) = Inr t"
    proof (intro allI impI)
      fix j assume "j < i'"
      then have "Suc j < i" using Suc by simp
      with Cons.prems(3)
      have "\<exists>t. read_csv env (path_join dir (snd ((kf # kfs) ! Suc j))) = Inr t"
        by blast
      then show "\<exists>t. read_csv env (path_join dir (snd (kfs ! j))) = Inr t"
        by simp
    qed
    have "read_all env dir kfs (data(k \<mapsto> t)) (calls @ [Read_csv (path_join dir f)]) =
          (Inl e, (calls @ [Read_csv (path_join dir f)]) @
             map (\<lambda>f. Read_csv (path_join dir f)) (take (Suc i') (map snd kfs)))"
      by (rule Cons.IH [OF i' fail before])
    then show ?thesis
      by (simp add: kf t Suc)
  qed
qed

text \<open>When every read succeeds, every file is read once, in order, and the dictionary
  holds under each key a table read from a file with that key.\<close>

lemma read_all_all_read:
  assumes "\<forall>f \<in> snd ` set kfs. \<exists>t. read_csv env (path_join dir f) = Inr t"
  shows "\<exists>data'. read_all env dir kfs data calls =
            (Inr data', calls @ map (\<lambda>f. Read_csv (path_join dir f)) (map snd kfs)) \<and>
          dom data' = dom data \<union> fst ` set kfs \<and>
          (\<forall>k t. data' k = Some t \<longrightarrow>
             data k = Some t \<or>
             (\<exists>f. (k, f) \<in> set kfs \<and> read_csv env (path_join dir f) = Inr t))"
  using assms
proof (induction kfs arbitrary: data calls)
  case Nil
  then show ?case by simp
next
  case (Cons kf kfs)
  obtain k f where kf: "kf = (k, f)" by (cases kf)
  from Cons.prems kf obtain t where t: "read_csv env (path_join dir f) = Inr t"
    by auto
  from Cons.prems have rest: "\<forall>f \<in> snd ` set kfs. \<exists>t. read_csv env (path_join dir f) = Inr t"
    by auto
  from Cons.IH [OF rest, of "data(k \<mapsto> t)" "calls @ [Read_csv (path_join dir f)]"]
  obtain data' where
    res: "read_all env dir kfs (data(k \<mapsto> t)) (calls @ [Read_csv (path_join dir f)]) =
            (Inr data', (calls @ [Read_csv (path_join dir f)]) @
               map (\<lambda>f. Read_csv (path_join dir f)) (map snd kfs))"
    and dm: "dom data' = dom (data(k \<mapsto> t)) \<union> fst ` set kfs"
    and src: "\<forall>k' t'. data' k' = Some t' \<longrightarrow>
             (data(k \<mapsto> t)) k' = Some t' \<or>
             (\<exists>f. (k', f) \<in> set kfs \<and> read_csv env (path_join dir f) = Inr t')"
    by blast
  have r1: "read_all env dir (kf # kfs) data calls =
            (Inr data', calls @ map (\<lambda>f. Read_csv (path_join dir f)) (map snd (kf # kfs)))"
    using res by (simp add: kf t)
  have r2: "dom data' = dom data \<union> fst ` set (kf # kfs)"
    using dm by (auto simp: kf)
  have r3: "\<forall>k' t'. data' k' = Some t' \<longrightarrow>
             data k' = Some t' \<or>
             (\<exists>f. (k', f) \<in> set (kf # kfs) \<and> read_csv env (path_join dir f) = Inr t')"
  proof (intro allI impI)
    fix k' t' assume "data' k' = Some t'"
    with src have "(data(k \<mapsto> t)) k' = Some t' \<or>
             (\<exists>f. (k', f) \<in> set kfs \<and> read_csv env (path_join dir f) = Inr t')"
      by blast
    then show "data k' = Some t' \<or>
             (\<exists>f. (k', f) \<in> set (kf # kfs) \<and> read_csv env (path_join dir f) = Inr t')"
      using t by (auto simp: kf split: if_splits)
  qed
  from r1 r2 r3 show ?case by blast
qed

lemma zip_keys_files: "map snd (zip (map g fs) fs) = fs"
  by (induction fs) simp_all

lemma zip_keys_files_set: "snd ` set (zip (map g fs) fs) = set fs"
proof -
  have "set (map snd (zip (map g fs) fs)) = set fs"
    by (simp only: zip_keys_files)
  then show ?thesis by (simp only: set_map)
qed

lemma zip_keys_files_keys: "fst ` set (zip (map g fs) fs) = g ` set fs"
proof -
  have "map fst (zip (map g fs) fs) = map g fs"
    by (induction fs) simp_all
  then have "set (map fst (zip (map g fs) fs)) = set (map g fs)"
    by simp
  then show ?thesis by (simp only: set_map)
qed

lemma zip_keys_files_mem: "(k, f) \<in> set (zip (map g fs) fs) \<Longrightarrow> f \<in> set fs \<and> g f = k"
  by (induction fs) auto

text \<open>A failing read is reached: some first one exists.\<close>

lemma first_failing_index:
  assumes "f \<in> set fs" and "rd f = Inl e"
  shows "\<exists>i e'. i < length fs \<and> rd (fs ! i) = Inl e' \<and> (\<forall>j<i. \<exists>t. rd (fs ! j) = Inr t)"
  using assms
proof (induction fs)
  case Nil
  then show ?case by simp
next
  case (Cons a fs)
  show ?case
  proof (cases "rd a")
    case (Inl e')
    then have "0 < length (a # fs) \<and> rd ((a # fs) ! 0) = Inl e' \<and>
               (\<forall>j<0. \<exists>t. rd ((a # fs) ! j) = Inr t)"
      by simp
    then show ?thesis by blast
  next
    case (Inr t)
    with Cons.prems have "f \<in> set fs" by auto
    from Cons.IH [OF this Cons.prems(2)]
    obtain i e' where i: "i < length fs" and fl: "rd (fs ! i) = Inl e'"
      and bf: "\<forall>j<i. \<exists>t. rd (fs ! j) = Inr t"
      by blast
    have "\<forall>j<Suc i. \<exists>t. rd ((a # fs) ! j) = Inr t"
    proof (intro allI impI)
      fix j assume "j < Suc i"
      then show "\<exists>t. rd ((a # fs) ! j) = Inr t"
        using Inr bf by (cases j) simp_all
    qed
    with i fl have "Suc i < length (a # fs) \<and> rd ((a # fs) ! Suc i) = Inl e' \<and>
                    (\<forall>j<Suc i. \<exists>t. rd ((a # fs) ! j) = Inr t)"
      by simp
    then show ?thesis by blast
  qed
qed

text \<open>
  Claim C6, as stated, at a concrete input: the directory is present and is listed, its
  single CSV file cannot be opened, and the loader fails with the \<^verbatim>\<open>PermissionError\<close> of
  that read. A file-access failure of the loader is therefore not always a missing or
  unreadable directory.
\<close>

theorem get_data_unreadable_file_fails:
  "listdir unreadable_file_env (csv_path ''/repo/olist/data.py'')
     = Inr [''olist_orders_dataset.csv''] \<and>
   get_data unreadable_file_env ''/repo/olist/data.py'' =
     (Inl (OSError PermissionError),
      [Listdir ''/repo/data/csv'', Read_csv ''/repo/data/csv/olist_orders_dataset.csv''])"
  by (simp add: get_data_def csv_path_def unreadable_file_env_def key_name_def path_join_def)

text \<open>
  Claim C6, amended: when the listing of the \<^verbatim>\<open>data/csv\<close> directory fails (the directory
  is missing or unreadable), the loader fails with that very error after that single
  call: nothing is read and nothing is tried again. When the directory is listed, the
  loader fails exactly when the read of a listed entry whose name contains \<^verbatim>\<open>.csv\<close> fails:
  it then fails with the error of the first such read, having read the entries before it
  and that entry, in order and once each. When every such read succeeds, the loader has
  read every entry whose name contains \<^verbatim>\<open>.csv\<close>, in order and once each, and returns a
  dictionary whose keys are the key names of these entries, each with a table read from
  an entry of that key name.
\<close>

theorem get_data_failures:
  "(listdir env (csv_path file) = Inl e \<longrightarrow>
      get_data env file = (Inl e, [Listdir (csv_path file)])) \<and>
   (listdir env (csv_path file) = Inr entries \<longrightarrow>
      ((\<exists>e'. fst (get_data env file) = Inl e') \<longleftrightarrow>
         (\<exists>f \<in> set entries. contains_str ''.csv'' f \<and>
            (\<exists>e'. read_csv env (path_join (csv_path file) f) = Inl e'))) \<and>
      (fst (get_data env file) = Inl e \<longrightarrow>
         (\<exists>f \<in> set entries. contains_str ''.csv'' f \<and>
            read_csv env (path_join (csv_path file) f) = Inl e)) \<and>
      (\<forall>i. i < length (filter (contains_str ''.csv'') entries) \<and>
            read_csv env (path_join (csv_path file) (filter (contains_str ''.csv'') entries ! i))
              = Inl e \<and>
            (\<forall>j<i. \<exists>t. read_csv env
                (path_join (csv_path file) (filter (contains_str ''.csv'') entries ! j)) = Inr t)
         \<longrightarrow>
           get_data env file =
             (Inl e,
              Listdir (csv_path file) #
                map (\<lambda>f. Read_csv (path_join (csv_path file) f))
                  (take (Suc i) (filter (contains_str ''.csv'') entries)))) \<and>
      ((\<forall>f \<in> set entries. contains_str ''.csv'' f \<longrightarrow>
            (\<exists>t. read_csv env (path_join (csv_path file) f) = Inr t)) \<longrightarrow>
         (\<exists>data.
            get_data env file =
              (Inr data,
               Listdir (csv_path file) #
                 map (\<lambda>f. Read_csv (path_join (csv_path file) f))
                   (filter (contains_str ''.csv'') entries)) \<and>
            dom data = key_name ` set (filter (contains_str ''.csv'') entries) \<and>
            (\<forall>k t. data k = Some t \<longrightarrow>
               (\<exists>f \<in> set entries. contains_str ''.csv'' f \<and> key_name f = k \<and>
                  read_csv env (path_join (csv_path file) f) = Inr t)))))"
proof (intro conjI impI allI)
  assume "listdir env (csv_path file) = Inl e"
  then show "get_data env file = (Inl e, [Listdir (csv_path file)])"
    by (simp add: get_data_def)
next
  let ?p = "csv_path file"
  let ?fs = "filter (contains_str ''.csv'') entries"
  let ?kfs = "zip (map key_name ?fs) ?fs"
  assume l: "listdir env ?p = Inr entries"
  then have gd: "get_data env file = read_all env ?p ?kfs Map.empty [Listdir ?p]"
    by (simp add: get_data_def Let_def)
  have nth: "\<And>i. i < length ?fs \<Longrightarrow> snd (?kfs ! i) = ?fs ! i"
    by simp
  have first: "get_data env file =
             (Inl e', Listdir ?p # map (\<lambda>f. Read_csv (path_join ?p f)) (take (Suc i) ?fs))"
    if i: "i < length ?fs"
      and fl: "read_csv env (path_join ?p (?fs ! i)) = Inl e'"
      and bf: "\<forall>j<i. \<exists>t. read_csv env (path_join ?p (?fs ! j)) = Inr t"
    for i e'
  proof -
    have i': "i < length ?kfs" using i by simp
    have fl': "read_csv env (path_join ?p (snd (?kfs ! i))) = Inl e'"
      using fl i by simp
    have bf': "\<forall>j<i. \<exists>t. read_csv env (path_join ?p (snd (?kfs ! j))) = Inr t"
      using bf i by simp
    have "read_all env ?p ?kfs Map.empty [Listdir ?p] =
          (Inl e', [Listdir ?p] @ map (\<lambda>f. Read_csv (path_join ?p f)) (take (Suc i) (map snd ?kfs)))"
      by (rule read_all_first_failure [OF i' fl' bf'])
    then show ?thesis
      unfolding gd zip_keys_files by simp
  qed
  show "(\<exists>e'. fst (get_data env file) = Inl e') \<longleftrightarrow>
         (\<exists>f \<in> set entries. contains_str ''.csv'' f \<and>
            (\<exists>e'. read_csv env (path_join ?p f) = Inl e'))"
  proof
    assume "\<exists>e'. fst (get_data env file) = Inl e'"
    then obtain e' where "fst (read_all env ?p ?kfs Map.empty [Listdir ?p]) = Inl e'"
      unfolding gd by blast
    then have "\<exists>f \<in> snd ` set ?kfs. read_csv env (path_join ?p f) = Inl e'"
      by (rule read_all_error)
    then show "\<exists>f \<in> set entries. contains_str ''.csv'' f \<and>
            (\<exists>e'. read_csv env (path_join ?p f) = Inl e')"
      unfolding zip_keys_files_set by auto
  next
    assume "\<exists>f \<in> set entries. contains_str ''.csv'' f \<and>
            (\<exists>e'. read_csv env (path_join ?p f) = Inl e')"
    then obtain f e' where f: "f \<in> set ?fs"
      and fe: "read_csv env (path_join ?p f) = Inl e'"
      by auto
    from first_failing_index [of f ?fs "\<lambda>f. read_csv env (path_join ?p f)" e', OF f fe]
    obtain i e'' where "i < length ?fs"
      and "read_csv env (path_join ?p (?fs ! i)) = Inl e''"
      and "\<forall>j<i. \<exists>t. read_csv env (path_join ?p (?fs ! j)) = Inr t"
      by blast
    then have "get_data env file =
             (Inl e'', Listdir ?p # map (\<lambda>f. Read_csv (path_join ?p f)) (take (Suc i) ?fs))"
      by (rule first)
    then show "\<exists>e'. fst (get_data env file) = Inl e'"
      by simp
  qed
  {
    assume "fst (get_data env file) = Inl e"
    then have "\<exists>f \<in> snd ` set ?kfs. read_csv env (path_join ?p f) = Inl e"
      unfolding gd by (rule read_all_error)
    then show "\<exists>f \<in> set entries. contains_str ''.csv'' f \<and>
            read_csv env (path_join ?p f) = Inl e"
      unfolding zip_keys_files_set by auto
  }
  {
    fix i
    assume "i < length ?fs \<and> read_csv env (path_join ?p (?fs ! i)) = Inl e \<and>
            (\<forall>j<i. \<exists>t. read_csv env (path_join ?p (?fs ! j)) = Inr t)"
    then show "get_data env file =
             (Inl e, Listdir ?p # map (\<lambda>f. Read_csv (path_join ?p f)) (take (Suc i) ?fs))"
      using first by blast
  }
  {
    assume "\<forall>f \<in> set entries. contains_str ''.csv'' f \<longrightarrow>
            (\<exists>t. read_csv env (path_join ?p f) = Inr t)"
    then have "\<forall>f \<in> snd ` set ?kfs. \<exists>t. read_csv env (path_join ?p f) = Inr t"
      unfolding zip_keys_files_set by auto
    from read_all_all_read [OF this, of Map.empty "[Listdir ?p]"]
    obtain data where
      res: "read_all env ?p ?kfs Map.empty [Listdir ?p] =
              (Inr data, [Listdir ?p] @ map (\<lambda>f. Read_csv (path_join ?p f)) (map snd ?kfs))"
      and dm: "dom data = dom (Map.empty :: string \<rightharpoonup> 'a) \<union> fst ` set ?kfs"
      and src: "\<forall>k t. data k = Some t \<longrightarrow>
             (Map.empty :: string \<rightharpoonup> 'a) k = Some t \<or>
             (\<exists>f. (k, f) \<in> set ?kfs \<and> read_csv env (path_join ?p f) = Inr t)"
      by blast
    have g1: "get_data env file =
              (Inr data, Listdir ?p # map (\<lambda>f. Read_csv (path_join ?p f)) ?fs)"
      using res unfolding gd zip_keys_files by simp
    have g2: "dom data = key_name ` set ?fs"
      using dm by (simp add: zip_keys_files_keys)
    have g3: "\<forall>k t. data k = Some t \<longrightarrow>
               (\<exists>f \<in> set entries. contains_str ''.csv'' f \<and> key_name f = k \<and>
                  read_csv env (path_join ?p f) = Inr t)"
    proof (intro allI impI)
      fix k t assume "data k = Some t"
      with src obtain f where "(k, f) \<in> set ?kfs" and rd: "read_csv env (path_join ?p f) = Inr t"
        by auto
      then have "f \<in> set ?fs \<and> key_name f = k"
        by (intro zip_keys_files_mem)
      with rd show "\<exists>f \<in> set entries. contains_str ''.csv'' f \<and> key_name f = k \<and>
                  read_csv env (path_join ?p f) = Inr t"
        by auto
    qed
    from g1 g2 g3
    show "\<exists>data.
            get_data env file =
              (Inr data, Listdir ?p # map (\<lambda>f. Read_csv (path_join ?p f)) ?fs) \<and>
            dom data = key_name ` set ?fs \<and>
            (\<forall>k t. data k = Some t \<longrightarrow>
               (\<exists>f \<in> set entries. contains_str ''.csv'' f \<and> key_name f = k \<and>
                  read_csv env (path_join ?p f) = Inr t))"
      by blast
  }
qed

theorem get_data_failures_witness:
  "listdir missing_dir_env (csv_path ''/repo/olist/data.py'') = Inl (OSError FileNotFoundError) \<and>
   get_data missing_dir_env ''/repo/olist/data.py'' =
     (Inl (OSError FileNotFoundError), [Listdir ''/repo/data/csv'']) \<and>
   listdir second_read_fails_env (csv_path ''/repo/olist/data.py'') =
     Inr [''olist_orders_dataset.csv'', ''notes.txt'', ''sellers.csv''] \<and>
   read_csv second_read_fails_env ''/repo/data/csv/olist_orders_dataset.csv'' = Inr 1 \<and>
   read_csv second_read_fails_env ''/repo/data/csv/sellers.csv'' = Inl ParserError \<and>
   get_data second_read_fails_env ''/repo/olist/data.py'' =
     (Inl ParserError,
      [Listdir ''/repo/data/csv'', Read_csv ''/repo/data/csv/olist_orders_dataset.csv'',
       Read_csv ''/repo/data/csv/sellers.csv'']) \<and>
   listdir readable_env (csv_path ''/repo/olist/data.py'') =
     Inr [''olist_orders_dataset.csv'', ''notes.txt'', ''sellers.csv''] \<and>
   (\<exists>data. get_data readable_env ''/repo/olist/data.py'' =
       (Inr data,
        [Listdir ''/repo/data/csv'', Read_csv ''/repo/data/csv/olist_orders_dataset.csv'',
         Read_csv ''/repo/data/csv/sellers.csv'']) \<and>
       dom data = {''orders'', ''sellers''})"
proof -
  let ?file = "''/repo/olist/data.py''"
  let ?entries = "[''olist_orders_dataset.csv'', ''notes.txt'', ''sellers.csv'']"
  let ?fs = "filter (contains_str ''.csv'') ?entries"
  have p: "csv_path ?file = ''/repo/data/csv''"
    by (simp add: csv_path_def)
  have fs: "?fs = [''olist_orders_dataset.csv'', ''sellers.csv'']"
    by simp
  have j1: "path_join ''/repo/data/csv'' ''olist_orders_dataset.csv'' =
            ''/repo/data/csv/olist_orders_dataset.csv''"
    and j2: "path_join ''/repo/data/csv'' ''sellers.csv'' = ''/repo/data/csv/sellers.csv''"
    by (simp_all add: path_join_def)
  have keys: "key_name ''olist_orders_dataset.csv'' = ''orders''" "key_name ''sellers.csv'' = ''sellers''"
    by (simp_all add: key_name_def)
  have l1: "listdir missing_dir_env (csv_path ?file) = Inl (OSError FileNotFoundError)"
    by (simp add: missing_dir_env_def)
  have "get_data missing_dir_env ?file =
            (Inl (OSError FileNotFoundError), [Listdir (csv_path ?file)])"
    by (rule get_data_failures [of missing_dir_env ?file "OSError FileNotFoundError",
          THEN conjunct1, THEN mp, OF l1])
  then have g1: "get_data missing_dir_env ?file =
            (Inl (OSError FileNotFoundError), [Listdir ''/repo/data/csv''])"
    by (simp only: p)
  have l2: "listdir second_read_fails_env (csv_path ?file) = Inr ?entries"
    by (simp add: p second_read_fails_env_def)
  have r1: "read_csv second_read_fails_env ''/repo/data/csv/olist_orders_dataset.csv'' = Inr 1"
    and r2: "read_csv second_read_fails_env ''/repo/data/csv/sellers.csv'' = Inl ParserError"
    by (simp_all add: second_read_fails_env_def)
  have h2: "(1::nat) < length ?fs \<and>
        read_csv second_read_fails_env (path_join (csv_path ?file) (?fs ! 1)) = Inl ParserError \<and>
        (\<forall>j<1. \<exists>t. read_csv second_read_fails_env (path_join (csv_path ?file) (?fs ! j)) = Inr t)"
    using r1 r2 by (simp add: p j1 j2)
  have "get_data second_read_fails_env ?file =
          (Inl ParserError,
           Listdir (csv_path ?file) #
             map (\<lambda>f. Read_csv (path_join (csv_path ?file) f)) (take (Suc 1) ?fs))"
    by (rule get_data_failures [of second_read_fails_env ?file ParserError ?entries,
          THEN conjunct2, THEN mp, OF l2, THEN conjunct2, THEN conjunct2, THEN conjunct1,
          THEN spec, THEN mp, OF h2])
  then have g2: "get_data second_read_fails_env ?file =
     (Inl ParserError,
      [Listdir ''/repo/data/csv'', Read_csv ''/repo/data/csv/olist_orders_dataset.csv'',
       Read_csv ''/repo/data/csv/sellers.csv''])"
    by (simp add: p j1 j2)
  have l3: "listdir readable_env (csv_path ?file) = Inr ?entries"
    by (simp add: p readable_env_def)
  have h3: "\<forall>f \<in> set ?entries. contains_str ''.csv'' f \<longrightarrow>
            (\<exists>t. read_csv readable_env (path_join (csv_path ?file) f) = Inr t)"
    by (simp add: p j1 j2 readable_env_def)
  from get_data_failures [of readable_env ?file "OSError FileNotFoundError" ?entries,
          THEN conjunct2, THEN mp, OF l3, THEN conjunct2, THEN conjunct2, THEN conjunct2,
          THEN mp, OF h3]
  obtain data where "get_data readable_env ?file =
              (Inr data,
               Listdir (csv_path ?file) #
                 map (\<lambda>f. Read_csv (path_join (csv_path ?file) f)) ?fs)"
    and "dom data = key_name ` set ?fs"
    by blast
  then have "get_data readable_env ?file =
       (Inr data,
        [Listdir ''/repo/data/csv'', Read_csv ''/repo/data/csv/olist_orders_dataset.csv'',
         Read_csv ''/repo/data/csv/sellers.csv''])"
    and "dom data = {''orders'', ''sellers''}"
    by (simp_all add: p j1 j2 keys)
  then have g3: "\<exists>data. get_data readable_env ?file =
       (Inr data,
        [Listdir ''/repo/data/csv'', Read_csv ''/repo/data/csv/olist_orders_dataset.csv'',
         Read_csv ''/repo/data/csv/sellers.csv'']) \<and>
       dom data = {''orders'', ''sellers''}"
    by blast
  from l1 g1 l2 r1 r2 g2 l3 g3 show ?thesis by (intro conjI)
qed

section \<open>Properties of the training set\<close>

lemma set_merge_inner:
  "set (merge_inner kl kr ls rs) = {(l, r). l \<in> set ls \<and> r \<in> set rs \<and> kr r = kl l}"
  by (auto simp: merge_inner_def)

lemma distinct_key_count:
  "distinct (map kr rs) \<Longrightarrow>
   length (filter (\<lambda>r. kr r = k) rs) = (if k \<in> kr ` set rs then 1 else 0)"
proof (induction rs)
  case Nil
  then show ?case by simp
next
  case (Cons a rs)
  then have notin: "kr a \<notin> kr ` set rs" and d: "distinct (map kr rs)"
    by simp_all
  show ?case
  proof (cases "kr a = k")
    case True
    with notin have "\<forall>r \<in> set rs. kr r \<noteq> k"
      by (metis image_eqI)
    then have "filter (\<lambda>r. kr r = k) rs = []"
      by (simp add: filter_empty_conv)
    with True show ?thesis by simp
  next
    case False
    with Cons.IH [OF d] show ?thesis by auto
  qed
qed

lemma merge_inner_fst:
  assumes "distinct (map kr rs)"
  shows "map fst (merge_inner kl kr ls rs) = filter (\<lambda>l. kl l \<in> kr ` set rs) ls"
proof (induction ls)
  case Nil
  show ?case by (simp add: merge_inner_def)
next
  case (Cons l ls)
  have step: "merge_inner kl kr (l # ls) rs =
              map (Pair l) (filter (\<lambda>r. kr r = kl l) rs) @ merge_inner kl kr ls rs"
    by (simp add: merge_inner_def)
  have "map fst (map (Pair l) (filter (\<lambda>r. kr r = kl l) rs)) =
        replicate (length (filter (\<lambda>r. kr r = kl l) rs)) l"
    by (simp add: comp_def map_replicate_const)
  also have "\<dots> = (if kl l \<in> kr ` set rs then [l] else [])"
    by (simp add: distinct_key_count [OF assms])
  finally show ?case
    using Cons.IH by (simp add: step)
qed

lemma length_filter_merge_inner:
  "length (filter Q (merge_inner kl kr ls rs)) =
   sum_list (map (\<lambda>l. length (filter (\<lambda>r. kr r = kl l \<and> Q (l, r)) rs)) ls)"
proof (induction ls)
  case Nil
  show ?case by (simp add: merge_inner_def)
next
  case (Cons l ls)
  have step: "merge_inner kl kr (l # ls) rs =
              map (Pair l) (filter (\<lambda>r. kr r = kl l) rs) @ merge_inner kl kr ls rs"
    by (simp add: merge_inner_def)
  have "length (filter Q (map (Pair l) (filter (\<lambda>r. kr r = kl l) rs))) =
        length (filter (\<lambda>r. kr r = kl l \<and> Q (l, r)) rs)"
    by (simp add: filter_map comp_def conj_commute)
  then show ?case
    using Cons.IH by (simp add: step)
qed

lemma sum_list_map_if_filter:
  fixes g :: "'a \<Rightarrow> nat"
  shows "sum_list (map (\<lambda>x. if P x then g x else 0) xs) = sum_list (map g (filter P xs))"
  by (induction xs) simp_all

lemma products_keys:
  "distinct (map products_row.order_id (get_number_products d))"
  "products_row.order_id ` set (get_number_products d) =
     order_items_row.order_id ` set (order_items d)"
proof -
  have ids: "map products_row.order_id (get_number_products d) =
             group_keys order_items_row.order_id (order_items d)"
    by (simp add: get_number_products_def comp_def)
  show "distinct (map products_row.order_id (get_number_products d))"
    by (simp add: ids group_keys_distinct)
  have "set (map products_row.order_id (get_number_products d)) =
        order_items_row.order_id ` set (order_items d)"
    by (simp only: ids group_keys_set)
  then show "products_row.order_id ` set (get_number_products d) =
     order_items_row.order_id ` set (order_items d)"
    by simp
qed

lemma sellers_count_keys:
  "distinct (map sellers_count_row.order_id (get_number_sellers d))"
  "sellers_count_row.order_id ` set (get_number_sellers d) =
     order_items_row.order_id ` set (order_items d)"
proof -
  have ids: "map sellers_count_row.order_id (get_number_sellers d) =
             group_keys order_items_row.order_id (order_items d)"
    by (simp add: get_number_sellers_def comp_def)
  show "distinct (map sellers_count_row.order_id (get_number_sellers d))"
    by (simp add: ids group_keys_distinct)
  have "set (map sellers_count_row.order_id (get_number_sellers d)) =
        order_items_row.order_id ` set (order_items d)"
    by (simp only: ids group_keys_set)
  then show "sellers_count_row.order_id ` set (get_number_sellers d) =
     order_items_row.order_id ` set (order_items d)"
    by simp
qed

lemma price_freight_keys:
  "distinct (map price_freight_row.order_id (get_price_and_freight d))"
  "price_freight_row.order_id ` set (get_price_and_freight d) =
     order_items_row.order_id ` set (order_items d)"
proof -
  have ids: "map price_freight_row.order_id (get_price_and_freight d) =
             group_keys order_items_row.order_id (order_items d)"
    by (simp add: get_price_and_freight_def comp_def)
  show "distinct (map price_freight_row.order_id (get_price_and_freight d))"
    by (simp add: ids group_keys_distinct)
  have "set (map price_freight_row.order_id (get_price_and_freight d)) =
        order_items_row.order_id ` set (order_items d)"
    by (simp only: ids group_keys_set)
  then show "price_freight_row.order_id ` set (get_price_and_freight d) =
     order_items_row.order_id ` set (order_items d)"
    by simp
qed

text \<open>The rows of the merged table are the combinations of one row of each of the five
  feature tables with one and the same order id.\<close>

lemma merged_features_iff:
  "((((w, r), p), s), f) \<in> set (merged_features d b) \<longleftrightarrow>
     w \<in> set (get_wait_time d b) \<and> r \<in> set (get_review_score d) \<and>
     p \<in> set (get_number_products d) \<and> s \<in> set (get_number_sellers d) \<and>
     f \<in> set (get_price_and_freight d) \<and>
     review_row.order_id r = wait_row.order_id w \<and>
     products_row.order_id p = wait_row.order_id w \<and>
     sellers_count_row.order_id s = wait_row.order_id w \<and>
     price_freight_row.order_id f = wait_row.order_id w"
  by (auto simp: merged_features_def set_merge_inner)

text \<open>Without its three right-most components, the merged table is the join of the
  wait-time and review tables restricted to the orders that have items.\<close>

lemma merged_features_projection:
  "map (\<lambda>t. fst (fst (fst t))) (merged_features d b) =
   filter (\<lambda>x. wait_row.order_id (fst x) \<in> order_items_row.order_id ` set (order_items d))
     (merge_inner wait_row.order_id review_row.order_id
        (get_wait_time d b) (get_review_score d))"
proof -
  let ?I = "order_items_row.order_id ` set (order_items d)"
  let ?M1 = "merge_inner wait_row.order_id review_row.order_id
        (get_wait_time d b) (get_review_score d)"
  let ?M2 = "merge_inner (\<lambda>x. wait_row.order_id (fst x)) products_row.order_id
               ?M1 (get_number_products d)"
  let ?M3 = "merge_inner (\<lambda>x. wait_row.order_id (fst (fst x))) sellers_count_row.order_id
               ?M2 (get_number_sellers d)"
  have m: "merged_features d b =
           merge_inner (\<lambda>x. wait_row.order_id (fst (fst (fst x)))) price_freight_row.order_id
             ?M3 (get_price_and_freight d)"
    by (simp add: merged_features_def case_prod_unfold)
  have m4: "map fst (merged_features d b) =
            filter (\<lambda>x. wait_row.order_id (fst (fst (fst x))) \<in> ?I) ?M3"
    unfolding m
    by (simp only: merge_inner_fst [OF price_freight_keys(1)] price_freight_keys(2))
  have m3: "map fst ?M3 = filter (\<lambda>x. wait_row.order_id (fst (fst x)) \<in> ?I) ?M2"
    by (simp only: merge_inner_fst [OF sellers_count_keys(1)] sellers_count_keys(2))
  have m2: "map fst ?M2 = filter (\<lambda>x. wait_row.order_id (fst x) \<in> ?I) ?M1"
    by (simp only: merge_inner_fst [OF products_keys(1)] products_keys(2))
  have "map (\<lambda>t. fst (fst (fst t))) (merged_features d b) =
        map fst (map fst (map fst (merged_features d b)))"
    by (simp add: comp_def)
  also have "\<dots> = map fst (map fst (filter (\<lambda>x. wait_row.order_id (fst (fst (fst x))) \<in> ?I) ?M3))"
    by (simp only: m4)
  also have "\<dots> = map fst (filter (\<lambda>x. wait_row.order_id (fst (fst x)) \<in> ?I) (map fst ?M3))"
    by (simp add: filter_map comp_def)
  also have "\<dots> = map fst (filter (\<lambda>x. wait_row.order_id (fst (fst x)) \<in> ?I)
                        (filter (\<lambda>x. wait_row.order_id (fst (fst x)) \<in> ?I) ?M2))"
    by (simp only: m3)
  also have "\<dots> = map fst (filter (\<lambda>x. wait_row.order_id (fst (fst x)) \<in> ?I) ?M2)"
    by simp
  also have "\<dots> = filter (\<lambda>x. wait_row.order_id (fst x) \<in> ?I) (map fst ?M2)"
    by (simp add: filter_map comp_def)
  also have "\<dots> = filter (\<lambda>x. wait_row.order_id (fst x) \<in> ?I)
                     (filter (\<lambda>x. wait_row.order_id (fst x) \<in> ?I) ?M1)"
    by (simp only: m2)
  also have "\<dots> = filter (\<lambda>x. wait_row.order_id (fst x) \<in> ?I) ?M1"
    by simp
  finally show ?thesis .
qed

lemma ts_sub_None: "ts_sub a b = None \<longleftrightarrow> a = None \<or> b = None"
  by (simp add: ts_sub_def split: option.split)

lemma training_row_isna_proj:
  "training_row_isna t \<longleftrightarrow>
     wait_time (fst (fst (fst (fst t)))) = None \<or>
     expected_wait_time (fst (fst (fst (fst t)))) = None \<or>
     review_row.review_score (snd (fst (fst (fst t)))) = None"
  by (cases t rule: training_row_isna.cases) simp

lemma scored_reviews_count:
  "length (filter (\<lambda>r. review_row.order_id r = k \<and> review_row.review_score r \<noteq> None)
             (get_review_score d)) =
   length (filter (\<lambda>r. order_reviews_row.order_id r = k \<and>
                        order_reviews_row.review_score r \<noteq> None) (order_reviews d))"
  by (simp add: get_review_score_def filter_map comp_def)

lemma length_filter_const_conj:
  "length (filter (\<lambda>r. A r \<and> C \<and> B r) xs) =
   (if C then length (filter (\<lambda>r. A r \<and> B r) xs) else 0)"
  by (cases C) simp_all

text \<open>The number of rows of the training set without the distance column: each delivered
  order that has its purchase, customer-delivery and estimated-delivery timestamps and at
  least one item contributes one row for each of its reviews that has a score.\<close>

lemma training_rows_count:
  "length (training_rows (get_training_data d b False)) =
   sum_list (map
     (\<lambda>r. length (filter (\<lambda>v. order_reviews_row.order_id v = orders_row.order_id r \<and>
                              order_reviews_row.review_score v \<noteq> None) (order_reviews d)))
     (filter (\<lambda>r. orders_row.order_status r = ''delivered'' \<and>
                   order_purchase_timestamp r \<noteq> None \<and>
                   order_delivered_customer_date r \<noteq> None \<and>
                   order_estimated_delivery_date r \<noteq> None \<and>
                   orders_row.order_id r \<in> order_items_row.order_id ` set (order_items d))
        (orders d)))"
proof -
  let ?I = "order_items_row.order_id ` set (order_items d)"
  let ?W = "get_wait_time d b"
  let ?R = "get_review_score d"
  let ?M1 = "merge_inner wait_row.order_id review_row.order_id ?W ?R"
  let ?ok = "\<lambda>x. wait_time (fst x) \<noteq> None \<and> expected_wait_time (fst x) \<noteq> None \<and>
                  review_row.review_score (snd x) \<noteq> None"
  let ?Qw = "\<lambda>w. wait_row.order_id w \<in> ?I \<and> wait_time w \<noteq> None \<and> expected_wait_time w \<noteq> None"
  let ?cnt = "\<lambda>k. length (filter (\<lambda>v. order_reviews_row.order_id v = k \<and>
                              order_reviews_row.review_score v \<noteq> None) (order_reviews d))"
  have "length (training_rows (get_training_data d b False)) =
        length (filter (\<lambda>t. ?ok (fst (fst (fst t)))) (merged_features d b))"
    by (simp add: get_training_data_def training_row_isna_proj)
  also have "\<dots> = length (filter ?ok (map (\<lambda>t. fst (fst (fst t))) (merged_features d b)))"
    by (simp add: filter_map comp_def)
  also have "\<dots> = length (filter ?ok (filter (\<lambda>x. wait_row.order_id (fst x) \<in> ?I) ?M1))"
    by (simp only: merged_features_projection)
  also have "\<dots> = length (filter (\<lambda>x. wait_row.order_id (fst x) \<in> ?I \<and> ?ok x) ?M1)"
    by simp
  also have "\<dots> = sum_list (map (\<lambda>w. length (filter (\<lambda>r. review_row.order_id r = wait_row.order_id w \<and>
                         ?Qw w \<and> review_row.review_score r \<noteq> None) ?R)) ?W)"
    unfolding length_filter_merge_inner
    by (intro arg_cong [where f = sum_list] map_cong arg_cong [where f = length] filter_cong refl)
      auto
  also have "\<dots> = sum_list (map (\<lambda>w. if ?Qw w
                         then length (filter (\<lambda>r. review_row.order_id r = wait_row.order_id w \<and>
                                 review_row.review_score r \<noteq> None) ?R)
                         else 0) ?W)"
    by (simp only: length_filter_const_conj)
  also have "\<dots> = sum_list (map (\<lambda>w. if ?Qw w then ?cnt (wait_row.order_id w) else 0) ?W)"
    by (simp only: scored_reviews_count)
  also have "\<dots> = sum_list (map (\<lambda>w. ?cnt (wait_row.order_id w)) (filter ?Qw ?W))"
    by (rule sum_list_map_if_filter)
  also have "\<dots> = sum_list (map (\<lambda>r. ?cnt (orders_row.order_id r))
        (filter (\<lambda>r. orders_row.order_status r = ''delivered'' \<and> ?Qw (wait_time_row r))
           (orders d)))"
    by (simp add: get_wait_time_def filter_map comp_def wait_time_row_def conj_commute)
  also have "\<dots> = sum_list (map (\<lambda>r. ?cnt (orders_row.order_id r))
        (filter (\<lambda>r. orders_row.order_status r = ''delivered'' \<and>
                   order_purchase_timestamp r \<noteq> None \<and>
                   order_delivered_customer_date r \<noteq> None \<and>
                   order_estimated_delivery_date r \<noteq> None \<and>
                   orders_row.order_id r \<in> ?I)
        (orders d)))"
    by (intro arg_cong [where f = sum_list] arg_cong2 [where f = map] filter_cong refl)
      (auto simp: wait_time_row_def ts_sub_def split: option.splits)
  finally show ?thesis .
qed

lemma five_orders_count:
  "length (training_rows (get_training_data five_orders b False)) = 4"
proof -
  have items: "order_items_row.order_id ` set (order_items five_orders) =
               {''o1'', ''o2'', ''o3'', ''o4'', ''o5''}"
    by (auto simp: five_orders_def single_item_def)
  have complete: "filter (\<lambda>r. orders_row.order_status r = ''delivered'' \<and>
                   order_purchase_timestamp r \<noteq> None \<and>
                   order_delivered_customer_date r \<noteq> None \<and>
                   order_estimated_delivery_date r \<noteq> None \<and>
                   orders_row.order_id r \<in> order_items_row.order_id ` set (order_items five_orders))
        (orders five_orders) = orders five_orders"
    unfolding items by (simp add: five_orders_def delivered_order_def)
  show ?thesis
    unfolding training_rows_count complete
    by (simp add: five_orders_def delivered_order_def scored_review_def)
qed

text \<open>
  Claim C2: \<^verbatim>\<open>get_training_data\<close> returns the inner join on the order id of the wait-time,
  review-score, product-count, seller-count and price/freight tables, joined with the
  distance table only when \<^verbatim>\<open>with_distance_seller_customer\<close> is set, without the rows
  that have a missing value.
  \<^item> Without the flag the table has no distance column and does not depend on the sellers,
    customers and geolocation tables; with the flag it has one.
  \<^item> A row is in the result exactly when it combines one row of each feature table, all
    with one order id, and none of its nullable columns (\<^verbatim>\<open>wait_time\<close>,
    \<^verbatim>\<open>expected_wait_time\<close>, \<^verbatim>\<open>review_score\<close>) is missing; with the flag, a row of the
    distance table with that order id is joined to it.
  \<^item> Without the flag the number of rows is the number of pairs of a delivered order that
    has its purchase, customer-delivery and estimated-delivery timestamps and at least one
    item, and a scored review of that order.
  \<^item> For the five orders of the example, of which \<open>o5\<close> has no review, the result has
    exactly 4 rows.
\<close>

theorem training_data_inner_join:
  "(\<exists>ts. get_training_data d b False = Training ts) \<and>
   get_training_data (d\<lparr> sellers := ss, customers := cs, geolocation := gs \<rparr>) b False =
     get_training_data d b False \<and>
   (\<forall>w r p s f.
      ((((w, r), p), s), f) \<in> set (training_rows (get_training_data d b False)) \<longleftrightarrow>
        w \<in> set (get_wait_time d b) \<and> r \<in> set (get_review_score d) \<and>
        p \<in> set (get_number_products d) \<and> s \<in> set (get_number_sellers d) \<and>
        f \<in> set (get_price_and_freight d) \<and>
        review_row.order_id r = wait_row.order_id w \<and>
        products_row.order_id p = wait_row.order_id w \<and>
        sellers_count_row.order_id s = wait_row.order_id w \<and>
        price_freight_row.order_id f = wait_row.order_id w \<and>
        wait_time w \<noteq> None \<and> expected_wait_time w \<noteq> None \<and>
        review_row.review_score r \<noteq> None) \<and>
   (\<exists>tx. get_training_data d b True = Training_with_distance tx \<and>
      (\<forall>t x. (t, x) \<in> set tx \<longleftrightarrow>
         t \<in> set (training_rows (get_training_data d b False)) \<and>
         x \<in> set (get_distance_seller_customer d) \<and>
         distance_row.order_id x = training_order_id t)) \<and>
   length (training_rows (get_training_data d b False)) =
     sum_list (map
       (\<lambda>r. length (filter (\<lambda>v. order_reviews_row.order_id v = orders_row.order_id r \<and>
                                order_reviews_row.review_score v \<noteq> None) (order_reviews d)))
       (filter (\<lambda>r. orders_row.order_status r = ''delivered'' \<and>
                     order_purchase_timestamp r \<noteq> None \<and>
                     order_delivered_customer_date r \<noteq> None \<and>
                     order_estimated_delivery_date r \<noteq> None \<and>
                     orders_row.order_id r \<in> order_items_row.order_id ` set (order_items d))
          (orders d))) \<and>
   map orders_row.order_id (orders five_orders) = [''o1'', ''o2'', ''o3'', ''o4'', ''o5''] \<and>
   map order_reviews_row.order_id (order_reviews five_orders) = [''o1'', ''o2'', ''o3'', ''o4''] \<and>
   length (training_rows (get_training_data five_orders b False)) = 4"
proof (intro conjI allI)
  show "\<exists>ts. get_training_data d b False = Training ts"
    by (simp add: get_training_data_def)
  show "get_training_data (d\<lparr> sellers := ss, customers := cs, geolocation := gs \<rparr>) b False =
     get_training_data d b False"
    by (simp add: get_training_data_def merged_features_def get_wait_time_def
        get_review_score_def get_number_products_def get_number_sellers_def
        get_price_and_freight_def)
next
  fix w r p s f
  show "((((w, r), p), s), f) \<in> set (training_rows (get_training_data d b False)) \<longleftrightarrow>
        w \<in> set (get_wait_time d b) \<and> r \<in> set (get_review_score d) \<and>
        p \<in> set (get_number_products d) \<and> s \<in> set (get_number_sellers d) \<and>
        f \<in> set (get_price_and_freight d) \<and>
        review_row.order_id r = wait_row.order_id w \<and>
        products_row.order_id p = wait_row.order_id w \<and>
        sellers_count_row.order_id s = wait_row.order_id w \<and>
        price_freight_row.order_id f = wait_row.order_id w \<and>
        wait_time w \<noteq> None \<and> expected_wait_time w \<noteq> None \<and>
        review_row.review_score r \<noteq> None"
    by (simp add: get_training_data_def merged_features_iff)
next
  let ?tx = "filter (\<lambda>(t, x). \<not> training_row_isna t)
                (merge_inner training_order_id distance_row.order_id
                   (merged_features d b) (get_distance_seller_customer d))"
  have "get_training_data d b True = Training_with_distance ?tx"
    by (simp add: get_training_data_def)
  moreover have "\<forall>t x. (t, x) \<in> set ?tx \<longleftrightarrow>
         t \<in> set (training_rows (get_training_data d b False)) \<and>
         x \<in> set (get_distance_seller_customer d) \<and>
         distance_row.order_id x = training_order_id t"
    by (auto simp: get_training_data_def set_merge_inner)
  ultimately show "\<exists>tx. get_training_data d b True = Training_with_distance tx \<and>
      (\<forall>t x. (t, x) \<in> set tx \<longleftrightarrow>
         t \<in> set (training_rows (get_training_data d b False)) \<and>
         x \<in> set (get_distance_seller_customer d) \<and>
         distance_row.order_id x = training_order_id t)"
    by blast
next
  show "length (training_rows (get_training_data d b False)) =
     sum_list (map
       (\<lambda>r. length (filter (\<lambda>v. order_reviews_row.order_id v = orders_row.order_id r \<and>
                                order_reviews_row.review_score v \<noteq> None) (order_reviews d)))
       (filter (\<lambda>r. orders_row.order_status r = ''delivered'' \<and>
                     order_purchase_timestamp r \<noteq> None \<and>
                     order_delivered_customer_date r \<noteq> None \<and>
                     order_estimated_delivery_date r \<noteq> None \<and>
                     orders_row.order_id r \<in> order_items_row.order_id ` set (order_items d))
          (orders d)))"
    by (rule training_rows_count)
  show "map orders_row.order_id (orders five_orders) = [''o1'', ''o2'', ''o3'', ''o4'', ''o5'']"
    by (simp add: five_orders_def delivered_order_def)
  show "map order_reviews_row.order_id (order_reviews five_orders) = [''o1'', ''o2'', ''o3'', ''o4'']"
    by (simp add: five_orders_def scored_review_def)
  show "length (training_rows (get_training_data five_orders b False)) = 4"
    by (rule five_orders_count)
qed

theorem training_data_inner_join_witness:
  "wait_time_row (delivered_order ''o1'') \<in> set (get_wait_time five_orders True) \<and>
   \<lparr> review_row.order_id = ''o1'', dim_is_five_star = 1, dim_is_one_star = 0,
      review_row.review_score = Some 5 \<rparr> \<in> set (get_review_score five_orders) \<and>
   \<lparr> products_row.order_id = ''o1'', number_of_products = 1 \<rparr>
      \<in> set (get_number_products five_orders) \<and>
   \<lparr> sellers_count_row.order_id = ''o1'', number_of_sellers = 1 \<rparr>
      \<in> set (get_number_sellers five_orders) \<and>
   \<lparr> price_freight_row.order_id = ''o1'', price_freight_row.price = 10,
      price_freight_row.freight_value = 2 \<rparr> \<in> set (get_price_and_freight five_orders) \<and>
   ((((wait_time_row (delivered_order ''o1''),
       \<lparr> review_row.order_id = ''o1'', dim_is_five_star = 1, dim_is_one_star = 0,
          review_row.review_score = Some 5 \<rparr>),
      \<lparr> products_row.order_id = ''o1'', number_of_products = 1 \<rparr>),
     \<lparr> sellers_count_row.order_id = ''o1'', number_of_sellers = 1 \<rparr>),
    \<lparr> price_freight_row.order_id = ''o1'', price_freight_row.price = 10,
       price_freight_row.freight_value = 2 \<rparr>)
     \<in> set (training_rows (get_training_data five_orders True False)) \<and>
   length (training_rows (get_training_data five_orders True False)) = 4"
proof -
  let ?w = "wait_time_row (delivered_order ''o1'')"
  let ?r = "\<lparr> review_row.order_id = ''o1'', dim_is_five_star = 1, dim_is_one_star = 0,
      review_row.review_score = Some 5 \<rparr>"
  let ?p = "\<lparr> products_row.order_id = ''o1'', number_of_products = 1 \<rparr>"
  let ?s = "\<lparr> sellers_count_row.order_id = ''o1'', number_of_sellers = 1 \<rparr>"
  let ?f = "\<lparr> price_freight_row.order_id = ''o1'', price_freight_row.price = 10,
      price_freight_row.freight_value = 2 \<rparr>"
  note inst = training_data_inner_join [of five_orders True "[]" "[]" "[]"]
  have w: "?w \<in> set (get_wait_time five_orders True)"
    by (simp add: get_wait_time_def five_orders_def delivered_order_def)
  have r: "?r \<in> set (get_review_score five_orders)"
    by (simp add: get_review_score_def five_orders_def scored_review_def is_five_star_def
        is_one_star_def)
  have keys: "group_keys order_items_row.order_id (order_items five_orders) =
              [''o1'', ''o2'', ''o3'', ''o4'', ''o5'']"
    by (simp add: group_keys_def five_orders_def single_item_def)
  have grp: "group_rows order_items_row.order_id (order_items five_orders) ''o1'' =
             [single_item ''o1'']"
    by (simp add: group_rows_def five_orders_def single_item_def)
  have p: "?p \<in> set (get_number_products five_orders)"
    unfolding get_number_products_def keys by (simp add: grp single_item_def)
  have s: "?s \<in> set (get_number_sellers five_orders)"
    unfolding get_number_sellers_def keys by (simp add: grp single_item_def)
  have f: "?f \<in> set (get_price_and_freight five_orders)"
    unfolding get_price_and_freight_def keys by (simp add: grp single_item_def)
  have vals: "review_row.order_id ?r = wait_row.order_id ?w"
    "products_row.order_id ?p = wait_row.order_id ?w"
    "sellers_count_row.order_id ?s = wait_row.order_id ?w"
    "price_freight_row.order_id ?f = wait_row.order_id ?w"
    "wait_time ?w \<noteq> None" "expected_wait_time ?w \<noteq> None"
    "review_row.review_score ?r \<noteq> None"
    by (simp_all add: wait_time_row_def delivered_order_def ts_sub_def)
  have row: "((((?w, ?r), ?p), ?s), ?f)
               \<in> set (training_rows (get_training_data five_orders True False))"
    using inst w r p s f vals by blast
  have "length (training_rows (get_training_data five_orders True False)) = 4"
    using inst by blast
  with w r p s f row show ?thesis by blast
qed

end
